theory Spec2Isabelle
  imports Main
begin

section \<open>Python values used by \<open>main.py\<close>\<close>

text \<open>
  Strings are \<open>char list\<close>s. \<open>str.lower\<close> is modelled on the ASCII letters; every
  other character is left as it is. The handlers only compare lowered text with the
  ASCII words \<open>subject\<close>, \<open>from\<close> and \<open>re:\<close>, and no non-ASCII character lowers to one
  of the letters of these words, so the comparison is the one Python makes.
\<close>

definition lower_char :: "char \<Rightarrow> char" where
  "lower_char c =
     (case map_of (zip ''ABCDEFGHIJKLMNOPQRSTUVWXYZ'' ''abcdefghijklmnopqrstuvwxyz'') c of
        None \<Rightarrow> c
      | Some d \<Rightarrow> d)"

definition lower :: "string \<Rightarrow> string" where
  "lower s = map lower_char s"

definition startswith :: "string \<Rightarrow> string \<Rightarrow> bool" where
  "startswith s p = (take (length p) s = p)"

text \<open>
  The exceptions that reach the handlers. A remote call of the Google client raises
  \<open>HttpError\<close> when the remote API answers with an error status; anything else a call
  may raise (transport, credentials) is \<open>OtherError\<close>.
\<close>

datatype exn =
    HttpError
  | RequestException
  | KeyError string
  | ValueError
  | AttributeError
  | OverflowError
  | OtherError

text \<open>\<open>HTTPException(status_code, detail)\<close>: the detail is a prefix followed by \<open>str(e)\<close>.\<close>

datatype http_exception = HTTPException nat string exn

section \<open>Gmail: the message normalizer and the list handler\<close>

record header =
  h_name :: "string option"
  h_value :: "string option"

record payload =
  p_headers :: "header list option"

record message =
  msg_id :: "string option"
  msg_snippet :: "string option"
  msg_payload :: "payload option"

record email_summary =
  es_email_id :: string
  es_snippet :: string
  es_subject :: string
  es_from :: string

text \<open>\<open>d.get(key, default)\<close> for a key whose value is a string.\<close>

definition get_or :: "'a option \<Rightarrow> 'a \<Rightarrow> 'a" where
  "get_or v d = (case v of None \<Rightarrow> d | Some x \<Rightarrow> x)"

text \<open>
  The loop of \<open>get_message_data\<close> (lines 68-78), with the two local variables as
  arguments. The test that leaves the loop stands inside the \<open>elif name == "from"\<close>
  branch, after the assignment of \<open>from_email\<close>.
\<close>

fun scan_headers :: "header list \<Rightarrow> string \<Rightarrow> string \<Rightarrow> string \<times> string" where
  "scan_headers [] subject from_email = (subject, from_email)"
| "scan_headers (h # hs) subject from_email =
     (let name = lower (get_or (h_name h) ''''); value = get_or (h_value h) '''' in
      if name = ''subject'' then scan_headers hs value from_email
      else if name = ''from'' then
        (if value \<noteq> [] \<and> subject \<noteq> [] then (subject, value)
         else scan_headers hs subject value)
      else scan_headers hs subject from_email)"

definition message_headers :: "message \<Rightarrow> header list" where
  "message_headers m =
     (case msg_payload m of None \<Rightarrow> [] | Some p \<Rightarrow> get_or (p_headers p) [])"

definition get_message_data :: "message \<Rightarrow> exn + email_summary" where
  "get_message_data m =
     (case scan_headers (message_headers m) [] [] of
        (subject, from_email) \<Rightarrow>
          (case msg_id m of
             None \<Rightarrow> Inl (KeyError ''id'')
           | Some i \<Rightarrow>
               Inr \<lparr>es_email_id = i, es_snippet = get_or (msg_snippet m) '''',
                    es_subject = subject, es_from = from_email\<rparr>))"

text \<open>
  The reading of the specification: the value of the first header with the given
  (lowered) name, the empty string when there is none.
\<close>

definition named :: "string \<Rightarrow> header \<Rightarrow> bool" where
  "named n h = (lower (get_or (h_name h) '''') = n)"

definition first_header_value :: "string \<Rightarrow> header list \<Rightarrow> string" where
  "first_header_value n hs =
     (case find (named n) hs of None \<Rightarrow> '''' | Some h \<Rightarrow> get_or (h_value h) '''')"

text \<open>The remote Gmail client: \<open>list\<close>, \<open>get\<close> (with its optional format) and \<open>send\<close>.\<close>

record message_ref =
  ref_id :: "string option"

record list_result =
  lr_messages :: "message_ref list option"

record send_body =
  sb_raw :: string
  sb_threadId :: string

record send_result =
  sr_id :: "string option"
  sr_threadId :: "string option"

record gmail_service =
  messages_list :: "string \<Rightarrow> nat \<Rightarrow> exn + list_result"
  messages_get :: "string \<Rightarrow> string option \<Rightarrow> exn + message"
  messages_send :: "send_body \<Rightarrow> exn + send_result"

record emails_response =
  er_emails :: "email_summary list"
  er_count :: nat

text \<open>\<open>q=f"label:{label}" if label else ""\<close>: \<open>None\<close> and the empty string are both false.\<close>

definition list_query :: "string option \<Rightarrow> string" where
  "list_query label =
     (case label of
        None \<Rightarrow> ''''
      | Some l \<Rightarrow> if l = [] then '''' else ''label:'' @ l)"

fun fetch_details :: "gmail_service \<Rightarrow> message_ref list \<Rightarrow> exn + email_summary list" where
  "fetch_details svc [] = Inr []"
| "fetch_details svc (r # rs) =
     (case ref_id r of
        None \<Rightarrow> Inl (KeyError ''id'')
      | Some i \<Rightarrow>
          (case messages_get svc i (Some ''full'') of
             Inl e \<Rightarrow> Inl e
           | Inr msg \<Rightarrow>
               (case get_message_data msg of
                  Inl e \<Rightarrow> Inl e
                | Inr d \<Rightarrow>
                    (case fetch_details svc rs of
                       Inl e \<Rightarrow> Inl e
                     | Inr ds \<Rightarrow> Inr (d # ds)))))"

definition emails_error :: "exn \<Rightarrow> http_exception" where
  "emails_error e =
     (if e = RequestException then HTTPException 500 ''Gmail API error: '' e
      else HTTPException 500 ''Unexpected error: '' e)"

definition get_emails :: "gmail_service \<Rightarrow> string option \<Rightarrow> http_exception + emails_response" where
  "get_emails svc label =
     (case messages_list svc (list_query label) 10 of
        Inl e \<Rightarrow> Inl (emails_error e)
      | Inr results \<Rightarrow>
          (let messages = get_or (lr_messages results) [] in
           if messages = [] then Inr \<lparr>er_emails = [], er_count = 0\<rparr>
           else
             (case fetch_details svc messages of
                Inl e \<Rightarrow> Inl (emails_error e)
              | Inr detailed \<Rightarrow> Inr \<lparr>er_emails = detailed, er_count = length detailed\<rparr>)))"


section \<open>Gmail: the reply handler\<close>

record reply_request =
  rr_message_id :: string
  rr_to :: string
  rr_body :: string
  rr_reply_all :: bool

text \<open>
  The \<open>EmailMessage\<close> under construction: the content given to \<open>set_content\<close> and the
  headers the handler assigns, in the order of assignment, each with the value the
  message stores for it.
\<close>

record email_message =
  em_content :: string
  em_headers :: "(string \<times> string) list"

text \<open>
  Two parts of the \<open>email\<close> package are parameters of the model. \<open>header_factory\<close> is
  the header registry of the default policy: it parses the text assigned to a header and
  gives the value the message stores, in which RFC 2047 encoded words are decoded and
  addresses are rewritten. \<open>encode_message\<close> is the serialisation of line 175,
  \<open>urlsafe_b64encode(message.as_bytes()).decode()\<close>. Either may raise.
\<close>

record email_library =
  header_factory :: "string \<Rightarrow> string \<Rightarrow> exn + string"
  encode_message :: "email_message \<Rightarrow> exn + string"

text \<open>
  \<open>str.splitlines\<close>: a line ends at a line feed, a carriage return (with the line feed
  that follows it, if any), a vertical tab, a form feed, a file, group or record
  separator, or a next-line character; no empty line is added after a final line end.
  (The line and paragraph separators U+2028 and U+2029 end a line as well; they have no
  counterpart in a string of 8-bit characters.)
\<close>

definition is_linebreak :: "char \<Rightarrow> bool" where
  "is_linebreak c = (c \<in> set [CHR 0x0A, CHR 0x0D, CHR 0x0B, CHR 0x0C,
                               CHR 0x1C, CHR 0x1D, CHR 0x1E, CHR 0x85])"

fun lines_from :: "string \<Rightarrow> string \<Rightarrow> string list" where
  "lines_from line [] = (if line = [] then [] else [rev line])"
| "lines_from line [c] = (if is_linebreak c then [rev line] else [rev (c # line)])"
| "lines_from line (c # c' # cs) =
     (if c = CHR 0x0D \<and> c' = CHR 0x0A then rev line # lines_from [] cs
      else if is_linebreak c then rev line # lines_from [] (c' # cs)
      else lines_from (c # line) (c' # cs))"

definition splitlines :: "string \<Rightarrow> string list" where
  "splitlines s = lines_from [] s"

text \<open>
  \<open>message[name] = val\<close>. The default policy refuses a text of more than one line
  (\<open>header_store_parse\<close>: \<open>len(value.splitlines()) > 1\<close> raises \<open>ValueError\<close>) and
  otherwise appends the header the registry builds. No header is assigned twice in the
  handler, so the limit on the number of headers of one name is never reached.
\<close>

definition header_store_parse :: "email_library \<Rightarrow> string \<Rightarrow> string \<Rightarrow> exn + string \<times> string" where
  "header_store_parse lib name val =
     (if length (splitlines val) > 1 then Inl ValueError
      else
        (case header_factory lib name val of
           Inl e \<Rightarrow> Inl e
         | Inr stored \<Rightarrow> Inr (name, stored)))"

definition set_header :: "email_library \<Rightarrow> email_message \<Rightarrow> string \<Rightarrow> string \<Rightarrow> exn + email_message" where
  "set_header lib message name val =
     (case header_store_parse lib name val of
        Inl e \<Rightarrow> Inl e
      | Inr h \<Rightarrow> Inr (message\<lparr>em_headers := em_headers message @ [h]\<rparr>))"

text \<open>Lines 146-151: the new message, its content, \<open>To\<close> and \<open>From\<close>.\<close>

definition reply_head :: "email_library \<Rightarrow> reply_request \<Rightarrow> exn + email_message" where
  "reply_head lib reply_request =
     (case set_header lib \<lparr>em_content = rr_body reply_request, em_headers = []\<rparr>
             ''To'' (rr_to reply_request) of
        Inl e \<Rightarrow> Inl e
      | Inr message \<Rightarrow> set_header lib message ''From'' ''me'')"

text \<open>Lines 161-163: the \<open>Re:\<close> rule.\<close>

definition reply_subject :: "string \<Rightarrow> string" where
  "reply_subject subject =
     (if \<not> startswith (lower subject) ''re:'' then ''Re: '' @ subject else subject)"

text \<open>Lines 160-172: \<open>Subject\<close> from the snippet of the original, then the threading headers.\<close>

definition reply_thread ::
  "email_library \<Rightarrow> reply_request \<Rightarrow> email_message \<Rightarrow> string \<Rightarrow> exn + email_message" where
  "reply_thread lib reply_request message snippet =
     (case set_header lib message ''Subject'' (reply_subject snippet) of
        Inl e \<Rightarrow> Inl e
      | Inr message \<Rightarrow>
          (case set_header lib message ''In-Reply-To'' (rr_message_id reply_request) of
             Inl e \<Rightarrow> Inl e
           | Inr message \<Rightarrow>
               set_header lib message ''References'' (rr_message_id reply_request)))"

text \<open>Lines 175-177: the encoded message and the body of the send call.\<close>

definition create_message :: "email_library \<Rightarrow> reply_request \<Rightarrow> email_message \<Rightarrow> exn + send_body" where
  "create_message lib reply_request message =
     (case encode_message lib message of
        Inl e \<Rightarrow> Inl e
      | Inr encoded_message \<Rightarrow>
          Inr \<lparr>sb_raw = encoded_message, sb_threadId = rr_message_id reply_request\<rparr>)"

text \<open>\<open>except HttpError: return None\<close>; every other exception leaves the handler.\<close>

definition reply_except :: "exn \<Rightarrow> exn + send_result option" where
  "reply_except e = (if e = HttpError then Inr None else Inl e)"

text \<open>Lines 179-184: the send call, the \<open>print\<close> that reads \<open>send_message["id"]\<close>, the return.\<close>

definition send_reply :: "gmail_service \<Rightarrow> send_body \<Rightarrow> exn + send_result option" where
  "send_reply svc body =
     (case messages_send svc body of
        Inl e \<Rightarrow> reply_except e
      | Inr send_message \<Rightarrow>
          (case sr_id send_message of
             None \<Rightarrow> reply_except (KeyError ''id'')
           | Some i \<Rightarrow> Inr (Some send_message)))"

text \<open>
  The handler, in the order of the source: the message and its first two headers, the
  fetch of the original, the remaining headers, the encoding, the send call. All of it
  stands in the \<open>try\<close> block.
\<close>

definition reply_to_email ::
  "email_library \<Rightarrow> gmail_service \<Rightarrow> reply_request \<Rightarrow> exn + send_result option" where
  "reply_to_email lib svc reply_request =
     (case reply_head lib reply_request of
        Inl e \<Rightarrow> reply_except e
      | Inr message \<Rightarrow>
          (case messages_get svc (rr_message_id reply_request) None of
             Inl e \<Rightarrow> reply_except e
           | Inr msg \<Rightarrow>
               (case msg_snippet msg of
                  None \<Rightarrow> reply_except (KeyError ''snippet'')
                | Some snippet \<Rightarrow>
                    (case reply_thread lib reply_request message snippet of
                       Inl e \<Rightarrow> reply_except e
                     | Inr message \<Rightarrow>
                         (case create_message lib reply_request message of
                            Inl e \<Rightarrow> reply_except e
                          | Inr body \<Rightarrow> send_reply svc body)))))"

section \<open>The Python library calls of the calendar handlers\<close>

text \<open>
  \<open>main.py\<close> calls \<open>str.replace\<close>, \<open>str.split\<close>, \<open>int\<close>, \<open>datetime.fromisoformat\<close>,
  \<open>datetime.combine\<close>, \<open>datetime.isoformat\<close>, \<open>timedelta\<close> and \<open>timezone\<close>. They are
  library code; the definitions below follow the library's documentation.
\<close>

subsection \<open>Decimal digits\<close>

definition digit_of :: "char \<Rightarrow> nat option" where
  "digit_of c = map_of (zip ''0123456789'' [0, 1, 2, 3, 4, 5, 6, 7, 8, 9]) c"

definition digit_char :: "nat \<Rightarrow> char" where
  "digit_char n = ''0123456789'' ! n"

fun digits_value :: "string \<Rightarrow> nat \<Rightarrow> nat option" where
  "digits_value [] acc = Some acc"
| "digits_value (c # cs) acc =
     (case digit_of c of None \<Rightarrow> None | Some d \<Rightarrow> digits_value cs (10 * acc + d))"

text \<open>A field of a fixed number of ASCII digits, as the ISO parser reads it.\<close>

definition parse_digits :: "string \<Rightarrow> nat option" where
  "parse_digits s = (if s = [] then None else digits_value s 0)"

text \<open>\<open>"%0kd" % n\<close> for a number of at most \<open>k\<close> digits.\<close>

fun pad :: "nat \<Rightarrow> nat \<Rightarrow> string" where
  "pad 0 n = []"
| "pad (Suc k) n = pad k (n div 10) @ [digit_char (n mod 10)]"

subsection \<open>\<open>str.replace("Z", "+00:00")\<close>, \<open>str.split(":")[0]\<close> and \<open>int\<close>\<close>

definition replace_Z :: "string \<Rightarrow> string" where
  "replace_Z s = concat (map (\<lambda>c. if c = CHR ''Z'' then ''+00:00'' else [c]) s)"

definition before_colon :: "string \<Rightarrow> string" where
  "before_colon s = takeWhile (\<lambda>c. c \<noteq> CHR '':'') s"

text \<open>
  \<open>int(s)\<close> on a string: the white space around the number is dropped, then an
  optional sign and decimal digits are read, where single underscores may stand between
  digits. White space is what the C function \<open>isspace\<close> accepts (tab, line feed,
  vertical tab, form feed, carriage return, space) and, of the characters from U+0080 on,
  which \<open>int\<close> first turns into spaces, the next-line character and the no-break
  space. (Digits outside ASCII, which \<open>int\<close> accepts as well, have no counterpart in a
  string of 8-bit characters.)
\<close>

definition is_space :: "char \<Rightarrow> bool" where
  "is_space c = (c \<in> set [CHR 0x09, CHR 0x0A, CHR 0x0B, CHR 0x0C, CHR 0x0D, CHR '' '',
                           CHR 0x85, CHR 0xA0])"

definition strip :: "string \<Rightarrow> string" where
  "strip s = rev (dropWhile is_space (rev (dropWhile is_space s)))"

fun int_digits :: "string \<Rightarrow> nat \<Rightarrow> nat option" where
  "int_digits [] acc = None"
| "int_digits [c] acc = (case digit_of c of None \<Rightarrow> None | Some d \<Rightarrow> Some (10 * acc + d))"
| "int_digits (c # c' # cs) acc =
     (case digit_of c of
        None \<Rightarrow> None
      | Some d \<Rightarrow>
          if c' = CHR ''_'' then int_digits cs (10 * acc + d)
          else int_digits (c' # cs) (10 * acc + d))"

definition py_int :: "string \<Rightarrow> exn + int" where
  "py_int s =
     (case strip s of
        [] \<Rightarrow> Inl ValueError
      | c # cs \<Rightarrow>
          if c = CHR ''+'' then
            (case int_digits cs 0 of None \<Rightarrow> Inl ValueError | Some n \<Rightarrow> Inr (int n))
          else if c = CHR ''-'' then
            (case int_digits cs 0 of None \<Rightarrow> Inl ValueError | Some n \<Rightarrow> Inr (- int n))
          else
            (case int_digits (c # cs) 0 of None \<Rightarrow> Inl ValueError | Some n \<Rightarrow> Inr (int n)))"

subsection \<open>Dates, times and fixed offsets\<close>

record date =
  d_year :: nat
  d_month :: nat
  d_day :: nat

record time_of_day =
  t_hour :: nat
  t_minute :: nat
  t_second :: nat
  t_microsecond :: nat

text \<open>An aware datetime carries its fixed offset from UTC, in minutes.\<close>

record datetime =
  dt_date :: date
  dt_time :: time_of_day
  dt_tzinfo :: "int option"

definition is_leap :: "nat \<Rightarrow> bool" where
  "is_leap y = (y mod 4 = 0 \<and> (if y mod 100 = 0 then y mod 400 = 0 else True))"

definition days_in_month :: "nat \<Rightarrow> nat \<Rightarrow> nat" where
  "days_in_month y m =
     (if m = 2 then (if is_leap y then 29 else 28)
      else if m = 4 \<or> m = 6 \<or> m = 9 \<or> m = 11 then 30
      else 31)"

definition valid_date :: "date \<Rightarrow> bool" where
  "valid_date d =
     (1 \<le> d_year d \<and> d_year d \<le> 9999 \<and> 1 \<le> d_month d \<and> d_month d \<le> 12 \<and>
      1 \<le> d_day d \<and> d_day d \<le> days_in_month (d_year d) (d_month d))"

definition valid_time :: "time_of_day \<Rightarrow> bool" where
  "valid_time t =
     (t_hour t < 24 \<and> t_minute t < 60 \<and> t_second t < 60 \<and> t_microsecond t < 1000000)"

definition valid_offset :: "int option \<Rightarrow> bool" where
  "valid_offset tz = (case tz of None \<Rightarrow> True | Some off \<Rightarrow> - 1440 < off \<and> off < 1440)"

definition valid_datetime :: "datetime \<Rightarrow> bool" where
  "valid_datetime dt =
     (valid_date (dt_date dt) \<and> valid_time (dt_time dt) \<and> valid_offset (dt_tzinfo dt))"

text \<open>
  \<open>timezone(timedelta(hours=h))\<close>: the \<open>timedelta\<close> overflows beyond 999999999 days, and
  a \<open>timezone\<close> takes an offset strictly between minus and plus 24 hours.
\<close>

definition hours_timezone :: "int \<Rightarrow> exn + int" where
  "hours_timezone h =
     (if h < - (999999999 * 24) \<or> 999999999 * 24 + 23 < h then Inl OverflowError
      else if - 24 < h \<and> h < 24 then Inr (60 * h)
      else Inl ValueError)"

subsection \<open>\<open>datetime.fromisoformat\<close>\<close>

text \<open>
  The format documented for \<open>fromisoformat\<close> since Python 3.7,
  \<open>YYYY-MM-DD[*HH[:MM[:SS[.fff[fff]]]][+HH:MM]]\<close>, where \<open>*\<close> is any single character,
  with every field in the range the \<open>datetime\<close> constructor accepts. For a string of
  this format every later version returns the same value. What only some versions accept
  (offsets with seconds, basic and week formats, other fraction lengths) is
  \<open>ValueError\<close> here, so the model is used below only where it returns a value or where
  every version fails.
\<close>

definition parse_isoformat_date :: "string \<Rightarrow> (nat \<times> nat \<times> nat) option" where
  "parse_isoformat_date s =
     (if length s = 10 \<and> s ! 4 = CHR ''-'' \<and> s ! 7 = CHR ''-'' then
        (case parse_digits (take 4 s) of
           None \<Rightarrow> None
         | Some y \<Rightarrow>
             (case parse_digits (take 2 (drop 5 s)) of
                None \<Rightarrow> None
              | Some m \<Rightarrow>
                  (case parse_digits (drop 8 s) of
                     None \<Rightarrow> None
                   | Some d \<Rightarrow> Some (y, m, d))))
      else None)"

text \<open>\<open>HH[:MM[:SS[.fff[fff]]]]\<close>, by the length of the text.\<close>

definition parse_hh_mm_ss_ff :: "string \<Rightarrow> (nat \<times> nat \<times> nat \<times> nat) option" where
  "parse_hh_mm_ss_ff t =
     (let n = length t in
      if n = 2 then
        (case parse_digits t of None \<Rightarrow> None | Some h \<Rightarrow> Some (h, 0, 0, 0))
      else if n = 5 \<and> t ! 2 = CHR '':'' then
        (case parse_digits (take 2 t) of
           None \<Rightarrow> None
         | Some h \<Rightarrow>
             (case parse_digits (drop 3 t) of
                None \<Rightarrow> None
              | Some m \<Rightarrow> Some (h, m, 0, 0)))
      else if (n = 8 \<or> n = 12 \<or> n = 15) \<and> t ! 2 = CHR '':'' \<and> t ! 5 = CHR '':'' then
        (case parse_digits (take 2 t) of
           None \<Rightarrow> None
         | Some h \<Rightarrow>
             (case parse_digits (take 2 (drop 3 t)) of
                None \<Rightarrow> None
              | Some m \<Rightarrow>
                  (case parse_digits (take 2 (drop 6 t)) of
                     None \<Rightarrow> None
                   | Some s \<Rightarrow>
                       if n = 8 then Some (h, m, s, 0)
                       else if t ! 8 = CHR ''.'' then
                         (case parse_digits (drop 9 t) of
                            None \<Rightarrow> None
                          | Some f \<Rightarrow> Some (h, m, s, if n = 12 then f * 1000 else f))
                       else None)))
      else None)"

text \<open>
  The offset starts at the first \<open>-\<close> of the time text, or, when it has none, at its
  first \<open>+\<close>.
\<close>

definition split_offset :: "string \<Rightarrow> string \<times> (char \<times> string) option" where
  "split_offset t =
     (if CHR ''-'' \<in> set t then
        (takeWhile (\<lambda>c. c \<noteq> CHR ''-'') t,
         Some (CHR ''-'', tl (dropWhile (\<lambda>c. c \<noteq> CHR ''-'') t)))
      else if CHR ''+'' \<in> set t then
        (takeWhile (\<lambda>c. c \<noteq> CHR ''+'') t,
         Some (CHR ''+'', tl (dropWhile (\<lambda>c. c \<noteq> CHR ''+'') t)))
      else (t, None))"

definition parse_offset :: "char \<Rightarrow> string \<Rightarrow> int option" where
  "parse_offset sign z =
     (if length z = 5 then
        (case parse_hh_mm_ss_ff z of
           None \<Rightarrow> None
         | Some (h, m, s, f) \<Rightarrow>
             if h < 24 \<and> m < 60 then
               Some (if sign = CHR ''-'' then - int (60 * h + m) else int (60 * h + m))
             else None)
      else None)"

definition parse_isoformat_time :: "string \<Rightarrow> (time_of_day \<times> int option) option" where
  "parse_isoformat_time t =
     (case split_offset t of
        (timestr, z) \<Rightarrow>
          (case parse_hh_mm_ss_ff timestr of
             None \<Rightarrow> None
           | Some (h, m, s, f) \<Rightarrow>
               (let tm = \<lparr>t_hour = h, t_minute = m, t_second = s, t_microsecond = f\<rparr> in
                case z of
                  None \<Rightarrow> Some (tm, None)
                | Some (sign, tzstr) \<Rightarrow>
                    (case parse_offset sign tzstr of
                       None \<Rightarrow> None
                     | Some off \<Rightarrow> Some (tm, Some off)))))"

definition make_datetime :: "nat \<times> nat \<times> nat \<Rightarrow> time_of_day \<times> int option \<Rightarrow> exn + datetime" where
  "make_datetime ymd tz =
     (case ymd of
        (y, m, d) \<Rightarrow>
          (let dt = \<lparr>dt_date = \<lparr>d_year = y, d_month = m, d_day = d\<rparr>,
                     dt_time = fst tz, dt_tzinfo = snd tz\<rparr> in
           if valid_date (dt_date dt) \<and> valid_time (dt_time dt) then Inr dt
           else Inl ValueError))"

definition midnight :: time_of_day where
  "midnight = \<lparr>t_hour = 0, t_minute = 0, t_second = 0, t_microsecond = 0\<rparr>"

definition fromisoformat :: "string \<Rightarrow> exn + datetime" where
  "fromisoformat s =
     (case parse_isoformat_date (take 10 s) of
        None \<Rightarrow> Inl ValueError
      | Some ymd \<Rightarrow>
          if length s = 10 then make_datetime ymd (midnight, None)
          else
            (case parse_isoformat_time (drop 11 s) of
               None \<Rightarrow> Inl ValueError
             | Some tz \<Rightarrow> make_datetime ymd tz))"

subsection \<open>\<open>datetime.isoformat\<close>\<close>

definition isoformat_date :: "date \<Rightarrow> string" where
  "isoformat_date d = pad 4 (d_year d) @ ''-'' @ pad 2 (d_month d) @ ''-'' @ pad 2 (d_day d)"

definition isoformat_time :: "time_of_day \<Rightarrow> string" where
  "isoformat_time t =
     pad 2 (t_hour t) @ '':'' @ pad 2 (t_minute t) @ '':'' @ pad 2 (t_second t)
     @ (if t_microsecond t = 0 then [] else ''.'' @ pad 6 (t_microsecond t))"

definition isoformat_offset :: "int \<Rightarrow> string" where
  "isoformat_offset off =
     (if off < 0 then ''-'' else ''+'')
     @ pad 2 (nat \<bar>off\<bar> div 60) @ '':'' @ pad 2 (nat \<bar>off\<bar> mod 60)"

definition isoformat :: "datetime \<Rightarrow> string" where
  "isoformat dt =
     isoformat_date (dt_date dt) @ ''T'' @ isoformat_time (dt_time dt)
     @ (case dt_tzinfo dt of None \<Rightarrow> [] | Some off \<Rightarrow> isoformat_offset off)"

section \<open>Calendar: listing today's events\<close>

text \<open>
  A raw event of the remote Calendar API, with the keys the handlers read. A key that is
  absent (or null) is \<open>None\<close>.
\<close>

record raw_event_time =
  ret_dateTime :: "string option"
  ret_date :: "string option"
  ret_timeZone :: "string option"

record raw_event =
  re_id :: "string option"
  re_summary :: "string option"
  re_htmlLink :: "string option"
  re_status :: "string option"
  re_created :: "string option"
  re_updated :: "string option"
  re_start :: "raw_event_time option"
  re_end :: "raw_event_time option"

record simplified_event =
  se_eventId :: "string option"
  se_summary :: string
  se_start :: string
  se_end :: "string option"

text \<open>\<open>a or b\<close> on two values that are a string or \<open>None\<close>: an empty string is false.\<close>

definition py_or :: "string option \<Rightarrow> string option \<Rightarrow> string option" where
  "py_or a b = (case a of None \<Rightarrow> b | Some s \<Rightarrow> if s = [] then b else Some s)"

text \<open>Lines 233-236: the start value of an event and the date computed from it.\<close>

definition event_start :: "raw_event \<Rightarrow> exn + string" where
  "event_start event =
     (case re_start event of
        None \<Rightarrow> Inl (KeyError ''start'')
      | Some st \<Rightarrow>
          (case py_or (ret_dateTime st) (ret_date st) of
             None \<Rightarrow> Inl AttributeError
           | Some start \<Rightarrow> Inr start))"

definition start_date :: "string \<Rightarrow> exn + date" where
  "start_date start =
     (case fromisoformat (replace_Z start) of Inl e \<Rightarrow> Inl e | Inr dt \<Rightarrow> Inr (dt_date dt))"

definition event_end :: "raw_event \<Rightarrow> exn + string option" where
  "event_end event =
     (case re_end event of
        None \<Rightarrow> Inl (KeyError ''end'')
      | Some en \<Rightarrow> Inr (py_or (ret_dateTime en) (ret_date en)))"

text \<open>The loop of lines 231-247; the first exception ends it.\<close>

fun simplify_events :: "date \<Rightarrow> raw_event list \<Rightarrow> exn + simplified_event list" where
  "simplify_events today [] = Inr []"
| "simplify_events today (event # events) =
     (case event_start event of
        Inl e \<Rightarrow> Inl e
      | Inr start \<Rightarrow>
          (case start_date start of
             Inl e \<Rightarrow> Inl e
           | Inr event_date \<Rightarrow>
               if event_date = today then
                 (case event_end event of
                    Inl e \<Rightarrow> Inl e
                  | Inr en \<Rightarrow>
                      (case simplify_events today events of
                         Inl e \<Rightarrow> Inl e
                       | Inr rest \<Rightarrow>
                           Inr (\<lparr>se_eventId = re_id event,
                                 se_summary = get_or (re_summary event) ''No Title'',
                                 se_start = start, se_end = en\<rparr> # rest)))
               else simplify_events today events))"

record list_params =
  lp_calendarId :: string
  lp_timeMin :: string
  lp_timeMax :: string
  lp_maxResults :: nat
  lp_singleEvents :: bool
  lp_orderBy :: string

record events_result =
  evr_items :: "raw_event list option"

text \<open>
  A Python value as it stands in a request or in the body of a remote call: \<open>None\<close>,
  a string, a list, or a dictionary with its keys in order.
\<close>

datatype pyval = PNone | PStr string | PList "pyval list" | PDict "(string \<times> pyval) list"

text \<open>
  A field of a request model: left out of the request, given as \<open>null\<close>, or given a
  value. \<open>dict(exclude_unset=True)\<close> drops the first kind only.
\<close>

datatype 'a field = Unset | Null | Val 'a

record event_date_time =
  edt_date :: "string field"
  edt_dateTime :: "string field"
  edt_timeZone :: "string field"

text \<open>
  \<open>CalendarEventCreate\<close>. The attendees, reminders and recurrence are passed on as they
  come.
\<close>

record calendar_event_create =
  cec_summary :: string
  cec_location :: "string field"
  cec_description :: "string field"
  cec_start :: event_date_time
  cec_end :: event_date_time
  cec_attendees :: "pyval field"
  cec_reminders :: "pyval field"
  cec_recurrence :: "pyval field"

record calendar_event_update =
  ceu_start :: "event_date_time field"
  ceu_end :: "event_date_time field"
  ceu_summary :: "string field"
  ceu_description :: "string field"
  ceu_location :: "string field"

record calendar_service =
  events_list :: "list_params \<Rightarrow> exn + events_result"
  events_insert :: "string \<Rightarrow> calendar_event_create \<Rightarrow> string \<Rightarrow> exn + raw_event"
  events_update :: "string \<Rightarrow> string \<Rightarrow> (string \<times> pyval) list \<Rightarrow> exn + raw_event"

text \<open>\<open>except Exception as e: raise HTTPException(status_code=500, detail=str(e))\<close>\<close>

definition server_error :: "exn \<Rightarrow> http_exception" where
  "server_error e = HTTPException 500 '''' e"

definition day_window :: "date \<Rightarrow> string \<times> string" where
  "day_window today =
     (isoformat \<lparr>dt_date = today, dt_time = midnight, dt_tzinfo = Some 0\<rparr>,
      isoformat \<lparr>dt_date = today,
                 dt_time = \<lparr>t_hour = 23, t_minute = 59, t_second = 59, t_microsecond = 999999\<rparr>,
                 dt_tzinfo = Some 0\<rparr>)"

definition events_query :: "date \<Rightarrow> list_params" where
  "events_query today =
     \<lparr>lp_calendarId = ''primary'', lp_timeMin = fst (day_window today),
      lp_timeMax = snd (day_window today), lp_maxResults = 10,
      lp_singleEvents = True, lp_orderBy = ''startTime''\<rparr>"

text \<open>\<open>today\<close> is the date of \<open>datetime.now(tz=timezone.utc)\<close>.\<close>

definition get_calendar_events ::
  "calendar_service \<Rightarrow> date \<Rightarrow> http_exception + simplified_event list" where
  "get_calendar_events svc today =
     (case events_list svc (events_query today) of
        Inl e \<Rightarrow> Inl (server_error e)
      | Inr events_result \<Rightarrow>
          (let events = get_or (evr_items events_result) [] in
           if events = [] then Inr []
           else
             (case simplify_events today events of
                Inl e \<Rightarrow> Inl (server_error e)
              | Inr simplified_events \<Rightarrow> Inr simplified_events)))"

section \<open>Calendar: creating an event\<close>

text \<open>
  \<open>adjust_datetime\<close> (lines 345-355). Its arguments come out of a dictionary and may be
  \<open>None\<close>; \<open>today\<close> is the current UTC date.
\<close>

definition adjust_datetime :: "date \<Rightarrow> string option \<Rightarrow> string option \<Rightarrow> exn + string" where
  "adjust_datetime today dt_str timezone_str =
     (case dt_str of
        None \<Rightarrow> Inl AttributeError
      | Some s \<Rightarrow>
          (case fromisoformat (replace_Z s) of
             Inl e \<Rightarrow> Inl e
           | Inr dt \<Rightarrow>
               (case timezone_str of
                  None \<Rightarrow> Inl AttributeError
                | Some z \<Rightarrow>
                    (case py_int (before_colon z) of
                       Inl e \<Rightarrow> Inl e
                     | Inr h \<Rightarrow>
                         (case hours_timezone h of
                            Inl e \<Rightarrow> Inl e
                          | Inr tz \<Rightarrow>
                              Inr (isoformat \<lparr>dt_date = today, dt_time = dt_time dt,
                                              dt_tzinfo = Some tz\<rparr>))))))"

text \<open>\<open>d[key]\<close> for a key that is present, and \<open>d.get(key, default)\<close>.\<close>

definition field_value :: "'a field \<Rightarrow> 'a option" where
  "field_value f = (case f of Val v \<Rightarrow> Some v | _ \<Rightarrow> None)"

definition field_get :: "'a field \<Rightarrow> 'a option \<Rightarrow> 'a option" where
  "field_get f d = (case f of Unset \<Rightarrow> d | Null \<Rightarrow> None | Val v \<Rightarrow> Some v)"

definition default_timezone :: string where
  "default_timezone = ''Asia/Kuala_Lumpur''"

text \<open>Lines 358-362 and 364-372, on the dictionary of the request.\<close>

definition adjust_start :: "date \<Rightarrow> calendar_event_create \<Rightarrow> exn + calendar_event_create" where
  "adjust_start today event_dict =
     (if edt_dateTime (cec_start event_dict) \<noteq> Unset then
        (let timezone = field_get (edt_timeZone (cec_start event_dict)) (Some default_timezone) in
         case adjust_datetime today (field_value (edt_dateTime (cec_start event_dict))) timezone of
           Inl e \<Rightarrow> Inl e
         | Inr s \<Rightarrow>
             Inr (event_dict\<lparr>cec_start := (cec_start event_dict)\<lparr>edt_dateTime := Val s\<rparr>\<rparr>))
      else Inr event_dict)"

definition end_timezone :: "calendar_event_create \<Rightarrow> string option" where
  "end_timezone event_dict =
     field_get (edt_timeZone (cec_end event_dict))
       (field_get (edt_timeZone (cec_start event_dict)) (Some default_timezone))"

definition adjust_end :: "date \<Rightarrow> calendar_event_create \<Rightarrow> exn + calendar_event_create" where
  "adjust_end today event_dict =
     (if edt_dateTime (cec_end event_dict) \<noteq> Unset then
        (case adjust_datetime today (field_value (edt_dateTime (cec_end event_dict)))
                (end_timezone event_dict) of
           Inl e \<Rightarrow> Inl e
         | Inr s \<Rightarrow>
             Inr (event_dict\<lparr>cec_end := (cec_end event_dict)\<lparr>edt_dateTime := Val s\<rparr>\<rparr>))
      else Inr event_dict)"

text \<open>The body handed to \<open>insert\<close>.\<close>

definition adjust_event :: "date \<Rightarrow> calendar_event_create \<Rightarrow> exn + calendar_event_create" where
  "adjust_event today event_data =
     (case adjust_start today event_data of
        Inl e \<Rightarrow> Inl e
      | Inr event_dict \<Rightarrow> adjust_end today event_dict)"

record created_event =
  ce_eventId :: "string option"
  ce_htmlLink :: "string option"
  ce_summary :: "string option"
  ce_status :: "string option"
  ce_created :: "string option"
  ce_updated :: "string option"
  ce_start :: "string option"
  ce_end :: "string option"
  ce_timeZone :: "string option"

definition created_projection :: "raw_event \<Rightarrow> created_event" where
  "created_projection event =
     \<lparr>ce_eventId = re_id event, ce_htmlLink = re_htmlLink event,
      ce_summary = re_summary event, ce_status = re_status event,
      ce_created = re_created event, ce_updated = re_updated event,
      ce_start = (case re_start event of None \<Rightarrow> None | Some st \<Rightarrow> ret_dateTime st),
      ce_end = (case re_end event of None \<Rightarrow> None | Some en \<Rightarrow> ret_dateTime en),
      ce_timeZone = (case re_start event of None \<Rightarrow> None | Some st \<Rightarrow> ret_timeZone st)\<rparr>"

definition create_calendar_event ::
  "calendar_service \<Rightarrow> date \<Rightarrow> calendar_event_create \<Rightarrow> http_exception + created_event" where
  "create_calendar_event svc today event_data =
     (case adjust_event today event_data of
        Inl e \<Rightarrow> Inl (server_error e)
      | Inr event_dict \<Rightarrow>
          (case events_insert svc ''primary'' event_dict ''all'' of
             Inl e \<Rightarrow> Inl (server_error e)
           | Inr event \<Rightarrow> Inr (created_projection event)))"

text \<open>The request body given as the example in the docstring of the handler (lines 315-333).\<close>

definition docstring_example :: calendar_event_create where
  "docstring_example =
     \<lparr>cec_summary = ''Test Event'',
      cec_location = Val ''Meeting Room 1'',
      cec_description = Val ''Test meeting description'',
      cec_start = \<lparr>edt_date = Unset, edt_dateTime = Val ''2025-09-22T09:00:00+08:00'',
                    edt_timeZone = Val ''Asia/Kuala_Lumpur''\<rparr>,
      cec_end = \<lparr>edt_date = Unset, edt_dateTime = Val ''2025-09-22T10:00:00+08:00'',
                  edt_timeZone = Val ''Asia/Kuala_Lumpur''\<rparr>,
      cec_attendees = Val (PList [PDict [(''email'', PStr ''attendee@example.com'')]]),
      cec_reminders = Unset,
      cec_recurrence = Unset\<rparr>"

section \<open>Calendar: updating an event\<close>

text \<open>
  \<open>update_data.dict(exclude_unset=True).items()\<close>: the fields that were set, in the order
  of their declaration, nested models turned into dictionaries in the same way.
\<close>

definition field_items :: "string \<Rightarrow> ('a \<Rightarrow> pyval) \<Rightarrow> 'a field \<Rightarrow> (string \<times> pyval) list" where
  "field_items k f v =
     (case v of Unset \<Rightarrow> [] | Null \<Rightarrow> [(k, PNone)] | Val x \<Rightarrow> [(k, f x)])"

definition dict_event_date_time :: "event_date_time \<Rightarrow> (string \<times> pyval) list" where
  "dict_event_date_time e =
     field_items ''date'' PStr (edt_date e)
     @ field_items ''dateTime'' PStr (edt_dateTime e)
     @ field_items ''timeZone'' PStr (edt_timeZone e)"

definition dict_update :: "calendar_event_update \<Rightarrow> (string \<times> pyval) list" where
  "dict_update u =
     field_items ''start'' (\<lambda>e. PDict (dict_event_date_time e)) (ceu_start u)
     @ field_items ''end'' (\<lambda>e. PDict (dict_event_date_time e)) (ceu_end u)
     @ field_items ''summary'' PStr (ceu_summary u)
     @ field_items ''description'' PStr (ceu_description u)
     @ field_items ''location'' PStr (ceu_location u)"

text \<open>\<open>{k: v for k, v in ... if v is not None}\<close> (lines 431-435).\<close>

definition update_dict :: "calendar_event_update \<Rightarrow> (string \<times> pyval) list" where
  "update_dict u = filter (\<lambda>kv. snd kv \<noteq> PNone) (dict_update u)"

definition update_calendar_event ::
  "calendar_service \<Rightarrow> string \<Rightarrow> calendar_event_update \<Rightarrow> http_exception + raw_event" where
  "update_calendar_event svc event_id update_data =
     (case events_update svc ''primary'' event_id (update_dict update_data) of
        Inl e \<Rightarrow> Inl (server_error e)
      | Inr updated_event \<Rightarrow> Inr updated_event)"

section \<open>The health check\<close>

text \<open>
  Line 6 of \<open>main.py\<close> is \<open>import datetime\<close>, and nothing binds the name again: in
  \<open>health_check\<close> the name \<open>datetime\<close> is the module. These are the public names of the
  module; an attribute that the module does not have raises \<open>AttributeError\<close>.
\<close>

definition datetime_module :: "string list" where
  "datetime_module =
     [''MAXYEAR'', ''MINYEAR'', ''UTC'', ''date'', ''datetime'', ''datetime_CAPI'',
      ''time'', ''timedelta'', ''timezone'', ''tzinfo'']"

definition module_getattr :: "string list \<Rightarrow> string \<Rightarrow> exn + string" where
  "module_getattr m name = (if name \<in> set m then Inr name else Inl AttributeError)"

record health =
  hc_status :: string
  hc_timestamp :: string

text \<open>
  \<open>{"status": "healthy", "timestamp": datetime.now().isoformat()}\<close>, where \<open>now_iso\<close> stands
  for what \<open>now().isoformat()\<close> would give if the call were reached.
\<close>

definition health_check :: "string \<Rightarrow> exn + health" where
  "health_check now_iso =
     (case module_getattr datetime_module ''now'' of
        Inl e \<Rightarrow> Inl e
      | Inr now \<Rightarrow> Inr \<lparr>hc_status = ''healthy'', hc_timestamp = now_iso\<rparr>)"

section \<open>The date-time of RFC 3339\<close>

text \<open>
  The specification calls the \<open>dateTime\<close> of a request an RFC 3339 datetime. This is the
  \<open>date-time\<close> of section 5.6 of that document, written after its grammar and not after
  the code: \<open>full-date "T" partial-time time-offset\<close>, where the day is one of its month
  (section 5.7), the second may be 60 for a leap second, a fraction of one or more digits
  may follow the second, and the offset is \<open>Z\<close> or a sign with \<open>HH:MM\<close>; \<open>T\<close> and \<open>Z\<close>
  may be written in lower case.
\<close>

definition rfc3339_full_date :: "string \<Rightarrow> bool" where
  "rfc3339_full_date s =
     (case parse_isoformat_date s of
        None \<Rightarrow> False
      | Some (y, m, d) \<Rightarrow> 1 \<le> m \<and> m \<le> 12 \<and> 1 \<le> d \<and> d \<le> days_in_month y m)"

definition rfc3339_secfrac :: "string \<Rightarrow> bool" where
  "rfc3339_secfrac r =
     (r = [] \<or> (hd r = CHR ''.'' \<and> parse_digits (tl r) \<noteq> None))"

definition rfc3339_partial_time :: "string \<Rightarrow> bool" where
  "rfc3339_partial_time t =
     (8 \<le> length t \<and>
      (case parse_hh_mm_ss_ff (take 8 t) of
         None \<Rightarrow> False
       | Some (h, m, s, f) \<Rightarrow> h \<le> 23 \<and> m \<le> 59 \<and> s \<le> 60 \<and> rfc3339_secfrac (drop 8 t)))"

definition rfc3339_numoffset :: "string \<Rightarrow> bool" where
  "rfc3339_numoffset z =
     (length z = 6 \<and> (hd z = CHR ''+'' \<or> hd z = CHR ''-'') \<and>
      (case parse_hh_mm_ss_ff (tl z) of
         None \<Rightarrow> False
       | Some (h, m, s, f) \<Rightarrow> h \<le> 23 \<and> m \<le> 59))"

definition rfc3339_full_time :: "string \<Rightarrow> bool" where
  "rfc3339_full_time t =
     (let n = length t in
      (1 \<le> n \<and> (last t = CHR ''Z'' \<or> last t = CHR ''z'') \<and> rfc3339_partial_time (butlast t))
      \<or> (6 \<le> n \<and> rfc3339_numoffset (drop (n - 6) t) \<and> rfc3339_partial_time (take (n - 6) t)))"

definition rfc3339_date_time :: "string \<Rightarrow> bool" where
  "rfc3339_date_time s =
     (11 < length s \<and> rfc3339_full_date (take 10 s) \<and>
      (s ! 10 = CHR ''T'' \<or> s ! 10 = CHR ''t'') \<and> rfc3339_full_time (drop 11 s))"


section \<open>Properties of the Gmail handlers\<close>

subsection \<open>The header scan\<close>

lemma scan_headers_Cons:
  "scan_headers (h # hs) s f =
     (if named ''subject'' h then scan_headers hs (get_or (h_value h) '''') f
      else if named ''from'' h then
        (if get_or (h_value h) '''' \<noteq> [] \<and> s \<noteq> [] then (s, get_or (h_value h) '''')
         else scan_headers hs s (get_or (h_value h) ''''))
      else scan_headers hs s f)"
  by (simp add: named_def Let_def)

lemma named_subject_not_from: "named ''subject'' h \<Longrightarrow> \<not> named ''from'' h"
  by (simp add: named_def)

lemma scan_no_subject:
  "\<forall>h\<in>set hs. \<not> named ''subject'' h \<Longrightarrow> fst (scan_headers hs s f) = s"
proof (induction hs arbitrary: s f)
  case Nil
  show ?case by simp
next
  case (Cons h hs)
  then show ?case by (simp add: scan_headers_Cons del: scan_headers.simps)
qed

lemma scan_no_from:
  "\<forall>h\<in>set hs. \<not> named ''from'' h \<Longrightarrow> snd (scan_headers hs s f) = f"
proof (induction hs arbitrary: s f)
  case Nil
  show ?case by simp
next
  case (Cons h hs)
  then show ?case by (simp add: scan_headers_Cons del: scan_headers.simps)
qed

lemma filter_le1_Cons:
  "length (filter P (h # hs)) \<le> 1 \<Longrightarrow> P h \<Longrightarrow> \<forall>x\<in>set hs. \<not> P x"
  by (simp add: filter_empty_conv)

lemma find_none: "\<forall>x\<in>set hs. \<not> P x \<Longrightarrow> find P hs = None"
  by (simp add: find_None_iff)

text \<open>
  With at most one \<open>subject\<close> header, and none left once a subject has been seen, the
  scan returns the value of that header, or the subject it started with.
\<close>

lemma scan_subject_unique:
  "length (filter (named ''subject'') hs) \<le> 1 \<Longrightarrow>
   (s \<noteq> [] \<longrightarrow> (\<forall>h\<in>set hs. \<not> named ''subject'' h)) \<Longrightarrow>
   fst (scan_headers hs s f) =
     (case find (named ''subject'') hs of None \<Rightarrow> s | Some h \<Rightarrow> get_or (h_value h) '''')"
proof (induction hs arbitrary: s f)
  case Nil
  then show ?case by simp
next
  case (Cons h hs)
  show ?case
  proof (cases "named ''subject'' h")
    case True
    with Cons.prems have "\<forall>x\<in>set hs. \<not> named ''subject'' x"
      by (intro filter_le1_Cons [of "named ''subject''" h hs]) simp_all
    with True show ?thesis
      by (simp add: scan_headers_Cons scan_no_subject del: scan_headers.simps)
  next
    case False
    with Cons.prems have le: "length (filter (named ''subject'') hs) \<le> 1"
      and ne: "s \<noteq> [] \<longrightarrow> (\<forall>h\<in>set hs. \<not> named ''subject'' h)"
      by simp_all
    have ih: "fst (scan_headers hs s f') =
        (case find (named ''subject'') hs of None \<Rightarrow> s | Some h \<Rightarrow> get_or (h_value h) '''')" for f'
      using Cons.IH [OF le ne] .
    show ?thesis
    proof (cases "named ''from'' h \<and> get_or (h_value h) '''' \<noteq> [] \<and> s \<noteq> []")
      case True
      with ne have "find (named ''subject'') hs = None" by (simp add: find_none)
      with True False show ?thesis
        by (simp add: scan_headers_Cons del: scan_headers.simps)
    next
      case stay: False
      with False ih show ?thesis
        by (auto simp add: scan_headers_Cons simp del: scan_headers.simps)
    qed
  qed
qed

lemma scan_from_unique:
  "length (filter (named ''from'') hs) \<le> 1 \<Longrightarrow>
   snd (scan_headers hs s f) =
     (case find (named ''from'') hs of None \<Rightarrow> f | Some h \<Rightarrow> get_or (h_value h) '''')"
proof (induction hs arbitrary: s f)
  case Nil
  then show ?case by simp
next
  case (Cons h hs)
  show ?case
  proof (cases "named ''from'' h")
    case True
    with Cons.prems have none: "\<forall>x\<in>set hs. \<not> named ''from'' x"
      by (intro filter_le1_Cons [of "named ''from''" h hs]) simp_all
    from True have ns: "\<not> named ''subject'' h" by (auto dest: named_subject_not_from)
    from True ns none show ?thesis
      by (simp add: scan_headers_Cons scan_no_from del: scan_headers.simps)
  next
    case False
    with Cons.prems have le: "length (filter (named ''from'') hs) \<le> 1" by simp
    from False Cons.IH [OF le] show ?thesis
      by (simp add: scan_headers_Cons del: scan_headers.simps)
  qed
qed

lemma named_simps:
  "named ''subject'' \<lparr>h_name = Some ''Subject'', h_value = v\<rparr>"
  "named ''from'' \<lparr>h_name = Some ''From'', h_value = v\<rparr>"
  "\<not> named ''from'' \<lparr>h_name = Some ''Subject'', h_value = v\<rparr>"
  "\<not> named ''subject'' \<lparr>h_name = Some ''From'', h_value = v\<rparr>"
  "\<not> named ''subject'' \<lparr>h_name = Some ''Date'', h_value = v\<rparr>"
  "\<not> named ''from'' \<lparr>h_name = Some ''Date'', h_value = v\<rparr>"
  by (simp_all add: named_def lower_def lower_char_def get_or_def)

text \<open>
  C1, as amended. For a message that has an id and in whose header list at most one
  header is named \<open>subject\<close> and at most one is named \<open>from\<close> (names compared after
  lowering), \<open>get_message_data\<close> returns the value of that \<open>subject\<close> header and the
  value of that \<open>from\<close> header, whatever their order; a name without a header, and a
  header without a value, give the empty string, and no error is raised.
\<close>

theorem get_message_data_unique_headers:
  assumes "msg_id m = Some i"
    and "length (filter (named ''subject'') (message_headers m)) \<le> 1"
    and "length (filter (named ''from'') (message_headers m)) \<le> 1"
  shows "get_message_data m =
           Inr \<lparr>es_email_id = i, es_snippet = get_or (msg_snippet m) '''',
                es_subject = first_header_value ''subject'' (message_headers m),
                es_from = first_header_value ''from'' (message_headers m)\<rparr>"
proof -
  obtain s f where sf: "scan_headers (message_headers m) [] [] = (s, f)"
    by (cases "scan_headers (message_headers m) [] []")
  have "s = fst (scan_headers (message_headers m) [] [])" using sf by simp
  also have "\<dots> = first_header_value ''subject'' (message_headers m)"
    using scan_subject_unique [OF assms(2), of "[]" "[]"]
    by (simp add: first_header_value_def)
  finally have s: "s = first_header_value ''subject'' (message_headers m)" .
  have "f = snd (scan_headers (message_headers m) [] [])" using sf by simp
  also have "\<dots> = first_header_value ''from'' (message_headers m)"
    using scan_from_unique [OF assms(3), of "[]" "[]"]
    by (simp add: first_header_value_def)
  finally have f: "f = first_header_value ''from'' (message_headers m)" .
  show ?thesis
    using assms(1) sf s f by (simp add: get_message_data_def)
qed

theorem get_message_data_unique_headers_witness:
  "get_message_data
     \<lparr>msg_id = Some ''m1'', msg_snippet = Some ''hi'',
      msg_payload = Some \<lparr>p_headers = Some
        [\<lparr>h_name = Some ''From'', h_value = Some ''a@b.c''\<rparr>,
         \<lparr>h_name = Some ''Date'', h_value = Some ''today''\<rparr>,
         \<lparr>h_name = Some ''Subject'', h_value = Some ''Hello''\<rparr>]\<rparr>\<rparr>
   = Inr \<lparr>es_email_id = ''m1'', es_snippet = ''hi'', es_subject = ''Hello'', es_from = ''a@b.c''\<rparr>
   \<and> get_message_data
     \<lparr>msg_id = Some ''m2'', msg_snippet = None,
      msg_payload = Some \<lparr>p_headers = Some
        [\<lparr>h_name = Some ''Date'', h_value = Some ''today''\<rparr>]\<rparr>\<rparr>
   = Inr \<lparr>es_email_id = ''m2'', es_snippet = '''', es_subject = '''', es_from = ''''\<rparr>"
  using get_message_data_unique_headers
      [of "\<lparr>msg_id = Some ''m1'', msg_snippet = Some ''hi'',
      msg_payload = Some \<lparr>p_headers = Some
        [\<lparr>h_name = Some ''From'', h_value = Some ''a@b.c''\<rparr>,
         \<lparr>h_name = Some ''Date'', h_value = Some ''today''\<rparr>,
         \<lparr>h_name = Some ''Subject'', h_value = Some ''Hello''\<rparr>]\<rparr>\<rparr>" "''m1''"]
    get_message_data_unique_headers
      [of "\<lparr>msg_id = Some ''m2'', msg_snippet = None,
      msg_payload = Some \<lparr>p_headers = Some
        [\<lparr>h_name = Some ''Date'', h_value = Some ''today''\<rparr>]\<rparr>\<rparr>" "''m2''"]
  by (simp add: message_headers_def get_or_def first_header_value_def named_simps)

text \<open>
  The claim as written fails where a name occurs twice: an assignment overwrites the
  earlier value, so with two \<open>Subject\<close> headers before the \<open>From\<close> header the second
  one is returned, where the first header named \<open>subject\<close> has the value \<open>A\<close>.
\<close>

theorem first_subject_counterexample:
  "get_message_data
     \<lparr>msg_id = Some ''m1'', msg_snippet = Some ''hi'',
      msg_payload = Some \<lparr>p_headers = Some
        [\<lparr>h_name = Some ''Subject'', h_value = Some ''A''\<rparr>,
         \<lparr>h_name = Some ''Subject'', h_value = Some ''B''\<rparr>,
         \<lparr>h_name = Some ''From'', h_value = Some ''X''\<rparr>]\<rparr>\<rparr>
   = Inr \<lparr>es_email_id = ''m1'', es_snippet = ''hi'', es_subject = ''B'', es_from = ''X''\<rparr>
   \<and> first_header_value ''subject''
        [\<lparr>h_name = Some ''Subject'', h_value = Some ''A''\<rparr>,
         \<lparr>h_name = Some ''Subject'', h_value = Some ''B''\<rparr>,
         \<lparr>h_name = Some ''From'', h_value = Some ''X''\<rparr>] = ''A''"
  by (simp add: get_message_data_def message_headers_def get_or_def first_header_value_def
      named_def lower_def lower_char_def)

subsection \<open>The reply handler\<close>

lemma set_header_stored:
  assumes "length (splitlines val) \<le> 1" and "header_factory lib name val = Inr stored"
  shows "set_header lib message name val =
           Inr (message\<lparr>em_headers := em_headers message @ [(name, stored)]\<rparr>)"
  using assms by (simp add: set_header_def header_store_parse_def)

lemma set_header_line_break:
  assumes "1 < length (splitlines val)"
  shows "set_header lib message name val = Inl ValueError"
  using assms by (simp add: set_header_def header_store_parse_def)

lemma set_header_names:
  assumes "set_header lib message name val = Inr message'"
  shows "map fst (em_headers message') = map fst (em_headers message) @ [name]"
    and "em_content message' = em_content message"
  using assms
  by (auto simp add: set_header_def header_store_parse_def split: if_splits sum.splits)

lemma reply_head_names:
  assumes "reply_head lib req = Inr message"
  shows "map fst (em_headers message) = [''To'', ''From'']"
    and "em_content message = rr_body req"
proof -
  from assms obtain m where
    m: "set_header lib \<lparr>em_content = rr_body req, em_headers = []\<rparr> ''To'' (rr_to req) = Inr m"
    and f: "set_header lib m ''From'' ''me'' = Inr message"
    by (auto simp add: reply_head_def split: sum.splits)
  from set_header_names [OF m] set_header_names [OF f]
  show "map fst (em_headers message) = [''To'', ''From'']"
    and "em_content message = rr_body req"
    by simp_all
qed

lemma reply_except_keeps: "reply_except e \<noteq> Inl HttpError"
  by (simp add: reply_except_def)

lemma send_reply_keeps: "send_reply svc body \<noteq> Inl HttpError"
  by (simp add: send_reply_def reply_except_keeps split: sum.splits option.splits)

text \<open>
  C4, as amended. Let the \<open>To\<close> and \<open>From\<close> headers be accepted, the original message
  be fetched and have a snippet, the new subject and the \<open>message_id\<close> be texts of one
  line, and the message store these two texts as they are given. Then the message that
  is composed has, after \<open>To\<close> and \<open>From\<close>, exactly the headers \<open>Subject\<close>, the
  snippet prefixed with \<open>Re: \<close> unless its lowered text starts with \<open>re:\<close>,
  \<open>In-Reply-To\<close> and \<open>References\<close>, both the \<open>message_id\<close>; and what the handler
  does next is to encode this message and to call send with the encoded text and with
  the \<open>message_id\<close> as thread id.
\<close>

theorem reply_threading:
  assumes "reply_head lib req = Inr message"
    and "messages_get svc (rr_message_id req) None = Inr msg"
    and "msg_snippet msg = Some snippet"
    and "length (splitlines (reply_subject snippet)) \<le> 1"
    and "length (splitlines (rr_message_id req)) \<le> 1"
    and "header_factory lib ''Subject'' (reply_subject snippet) = Inr (reply_subject snippet)"
    and "header_factory lib ''In-Reply-To'' (rr_message_id req) = Inr (rr_message_id req)"
    and "header_factory lib ''References'' (rr_message_id req) = Inr (rr_message_id req)"
  shows "map fst (em_headers message) = [''To'', ''From'']
     \<and> reply_thread lib req message snippet =
         Inr (message\<lparr>em_headers := em_headers message @
                [(''Subject'',
                  if startswith (lower snippet) ''re:'' then snippet else ''Re: '' @ snippet),
                 (''In-Reply-To'', rr_message_id req),
                 (''References'', rr_message_id req)]\<rparr>)
     \<and> reply_to_email lib svc req =
         (case encode_message lib
                 (message\<lparr>em_headers := em_headers message @
                    [(''Subject'',
                      if startswith (lower snippet) ''re:'' then snippet else ''Re: '' @ snippet),
                     (''In-Reply-To'', rr_message_id req),
                     (''References'', rr_message_id req)]\<rparr>) of
            Inl e \<Rightarrow> reply_except e
          | Inr raw \<Rightarrow> send_reply svc \<lparr>sb_raw = raw, sb_threadId = rr_message_id req\<rparr>)"
proof -
  let ?subject = "if startswith (lower snippet) ''re:'' then snippet else ''Re: '' @ snippet"
  let ?composed = "message\<lparr>em_headers := em_headers message @
      [(''Subject'', ?subject), (''In-Reply-To'', rr_message_id req),
       (''References'', rr_message_id req)]\<rparr>"
  have s: "reply_subject snippet = ?subject" by (simp add: reply_subject_def)
  have names: "map fst (em_headers message) = [''To'', ''From'']"
    using assms(1) by (rule reply_head_names)
  have thread: "reply_thread lib req message snippet = Inr ?composed"
    using set_header_stored [OF assms(4) assms(6)] set_header_stored [OF assms(5) assms(7)]
      set_header_stored [OF assms(5) assms(8)] s
    by (simp add: reply_thread_def)
  have "reply_to_email lib svc req =
      (case encode_message lib ?composed of
         Inl e \<Rightarrow> reply_except e
       | Inr raw \<Rightarrow> send_reply svc \<lparr>sb_raw = raw, sb_threadId = rr_message_id req\<rparr>)"
    using assms(1,2,3) thread
    by (simp add: reply_to_email_def create_message_def split: sum.splits)
  with names thread show ?thesis by (simp only: simp_thms)
qed

text \<open>
  The scenario of the specification: the reply to \<open>abc123\<close>, whose snippet is
  \<open>meeting notes\<close>. The remote send call answers with the thread id it was given.
\<close>

theorem reply_threading_witness:
  "reply_thread
     \<lparr>header_factory = \<lambda>name val. Inr val, encode_message = \<lambda>m. Inr (em_content m)\<rparr>
     \<lparr>rr_message_id = ''abc123'', rr_to = ''x@y.com'', rr_body = ''Thanks'', rr_reply_all = False\<rparr>
     \<lparr>em_content = ''Thanks'', em_headers = [(''To'', ''x@y.com''), (''From'', ''me'')]\<rparr>
     ''meeting notes''
   = Inr \<lparr>em_content = ''Thanks'',
          em_headers = [(''To'', ''x@y.com''), (''From'', ''me''),
                        (''Subject'', ''Re: meeting notes''),
                        (''In-Reply-To'', ''abc123''), (''References'', ''abc123'')]\<rparr>
   \<and> reply_to_email
     \<lparr>header_factory = \<lambda>name val. Inr val, encode_message = \<lambda>m. Inr (em_content m)\<rparr>
     \<lparr>messages_list = \<lambda>q n. Inl OtherError,
      messages_get = \<lambda>i f. Inr \<lparr>msg_id = Some i, msg_snippet = Some ''meeting notes'',
                                   msg_payload = None\<rparr>,
      messages_send = \<lambda>b. Inr \<lparr>sr_id = Some ''s1'', sr_threadId = Some (sb_threadId b)\<rparr>\<rparr>
     \<lparr>rr_message_id = ''abc123'', rr_to = ''x@y.com'', rr_body = ''Thanks'', rr_reply_all = False\<rparr>
   = Inr (Some \<lparr>sr_id = Some ''s1'', sr_threadId = Some ''abc123''\<rparr>)"
proof -
  let ?lib = "\<lparr>header_factory = \<lambda>name val. Inr val, encode_message = \<lambda>m. Inr (em_content m)\<rparr>"
  let ?svc = "\<lparr>messages_list = \<lambda>q n. Inl OtherError,
      messages_get = \<lambda>i f. Inr \<lparr>msg_id = Some i, msg_snippet = Some ''meeting notes'',
                                   msg_payload = None\<rparr>,
      messages_send = \<lambda>b. Inr \<lparr>sr_id = Some ''s1'', sr_threadId = Some (sb_threadId b)\<rparr>\<rparr>"
  let ?req = "\<lparr>rr_message_id = ''abc123'', rr_to = ''x@y.com'', rr_body = ''Thanks'',
      rr_reply_all = False\<rparr>"
  let ?head = "\<lparr>em_content = ''Thanks'', em_headers = [(''To'', ''x@y.com''), (''From'', ''me'')]\<rparr>"
  have h: "reply_head ?lib ?req = Inr ?head"
    by (simp add: reply_head_def set_header_def header_store_parse_def splitlines_def
        is_linebreak_def)
  have r: "reply_subject ''meeting notes'' = ''Re: meeting notes''"
    by (simp add: reply_subject_def startswith_def lower_def lower_char_def)
  have l: "length (splitlines (reply_subject ''meeting notes'')) \<le> 1"
    "length (splitlines (rr_message_id ?req)) \<le> 1"
    unfolding r by (simp_all add: splitlines_def is_linebreak_def)
  have t: "startswith (lower ''meeting notes'') ''re:'' = False"
    by (simp add: startswith_def lower_def lower_char_def)
  from reply_threading [where lib = ?lib and req = ?req and message = ?head and svc = ?svc
      and msg = "\<lparr>msg_id = Some ''abc123'', msg_snippet = Some ''meeting notes'',
        msg_payload = None\<rparr>"
      and snippet = "''meeting notes''", OF h _ _ l]
  show ?thesis
    by (simp add: t send_reply_def)
qed

text \<open>
  C4 as stated speaks of every request. A request whose \<open>to\<close> holds a line feed, here
  \<open>x@y.com\<close>, a line feed and \<open>Bcc: z@y.com\<close>, is refused by the assignment of line 150:
  whatever the library and the remote service do otherwise, the handler raises
  \<open>ValueError\<close>; no message is composed and nothing is sent.
\<close>

theorem reply_line_break_counterexample:
  "\<forall>lib svc.
     reply_to_email lib svc
       \<lparr>rr_message_id = ''abc123'', rr_to = ''x@y.com'' @ [CHR 0x0A] @ ''Bcc: z@y.com'',
        rr_body = ''Thanks'', rr_reply_all = False\<rparr>
     = Inl ValueError"
proof -
  have "1 < length (splitlines (''x@y.com'' @ [CHR 0x0A] @ ''Bcc: z@y.com''))"
    by (simp add: splitlines_def is_linebreak_def)
  then show ?thesis
    by (simp add: reply_to_email_def reply_head_def set_header_line_break reply_except_def)
qed

text \<open>
  C6. No \<open>HttpError\<close> leaves the reply handler. When the remote API answers the fetch
  of the original message with this error, or answers the send call with it, the handler
  returns \<open>None\<close>; when both calls succeed (and the send result carries its id) it
  returns the send result. The fetch is made once \<open>To\<close> and \<open>From\<close> are set, the send
  call once the message is composed and encoded.
\<close>

theorem reply_swallows_http_error:
  "reply_to_email lib svc req \<noteq> Inl HttpError
   \<and> (reply_head lib req = Inr message
        \<and> messages_get svc (rr_message_id req) None = Inl HttpError
      \<longrightarrow> reply_to_email lib svc req = Inr None)
   \<and> (reply_head lib req = Inr message
        \<and> messages_get svc (rr_message_id req) None = Inr msg \<and> msg_snippet msg = Some snippet
        \<and> reply_thread lib req message snippet = Inr composed
        \<and> create_message lib req composed = Inr body
        \<and> messages_send svc body = Inl HttpError
      \<longrightarrow> reply_to_email lib svc req = Inr None)
   \<and> (reply_head lib req = Inr message
        \<and> messages_get svc (rr_message_id req) None = Inr msg \<and> msg_snippet msg = Some snippet
        \<and> reply_thread lib req message snippet = Inr composed
        \<and> create_message lib req composed = Inr body
        \<and> messages_send svc body = Inr r \<and> sr_id r = Some i
      \<longrightarrow> reply_to_email lib svc req = Inr (Some r))"
proof -
  have "reply_to_email lib svc req \<noteq> Inl HttpError"
    by (simp add: reply_to_email_def reply_except_keeps send_reply_keeps
        split: sum.splits option.splits)
  then show ?thesis
    by (simp add: reply_to_email_def send_reply_def reply_except_def)
qed

theorem reply_swallows_http_error_witness:
  "reply_to_email
     \<lparr>header_factory = \<lambda>name val. Inr val, encode_message = \<lambda>m. Inr (em_content m)\<rparr>
     \<lparr>messages_list = \<lambda>q n. Inl OtherError, messages_get = \<lambda>i f. Inl HttpError,
      messages_send = \<lambda>b. Inl OtherError\<rparr>
     \<lparr>rr_message_id = ''abc123'', rr_to = ''x@y.com'', rr_body = ''Thanks'', rr_reply_all = False\<rparr>
   = Inr None
   \<and> reply_to_email
     \<lparr>header_factory = \<lambda>name val. Inr val, encode_message = \<lambda>m. Inr (em_content m)\<rparr>
     \<lparr>messages_list = \<lambda>q n. Inl OtherError,
      messages_get = \<lambda>i f. Inr \<lparr>msg_id = Some i, msg_snippet = Some ''meeting notes'',
                                   msg_payload = None\<rparr>,
      messages_send = \<lambda>b. Inl HttpError\<rparr>
     \<lparr>rr_message_id = ''abc123'', rr_to = ''x@y.com'', rr_body = ''Thanks'', rr_reply_all = False\<rparr>
   = Inr None
   \<and> reply_to_email
     \<lparr>header_factory = \<lambda>name val. Inr val, encode_message = \<lambda>m. Inr (em_content m)\<rparr>
     \<lparr>messages_list = \<lambda>q n. Inl OtherError,
      messages_get = \<lambda>i f. Inr \<lparr>msg_id = Some i, msg_snippet = Some ''meeting notes'',
                                   msg_payload = None\<rparr>,
      messages_send = \<lambda>b. Inr \<lparr>sr_id = Some ''s1'', sr_threadId = Some (sb_threadId b)\<rparr>\<rparr>
     \<lparr>rr_message_id = ''abc123'', rr_to = ''x@y.com'', rr_body = ''Thanks'', rr_reply_all = False\<rparr>
   = Inr (Some \<lparr>sr_id = Some ''s1'', sr_threadId = Some ''abc123''\<rparr>)"
proof -
  let ?lib = "\<lparr>header_factory = \<lambda>name val. Inr val, encode_message = \<lambda>m. Inr (em_content m)\<rparr>"
  let ?req = "\<lparr>rr_message_id = ''abc123'', rr_to = ''x@y.com'', rr_body = ''Thanks'',
      rr_reply_all = False\<rparr>"
  let ?msg = "\<lparr>msg_id = Some ''abc123'', msg_snippet = Some ''meeting notes'', msg_payload = None\<rparr>"
  let ?head = "\<lparr>em_content = ''Thanks'', em_headers = [(''To'', ''x@y.com''), (''From'', ''me'')]\<rparr>"
  let ?composed = "\<lparr>em_content = ''Thanks'',
      em_headers = [(''To'', ''x@y.com''), (''From'', ''me''), (''Subject'', ''Re: meeting notes''),
                    (''In-Reply-To'', ''abc123''), (''References'', ''abc123'')]\<rparr>"
  let ?body = "\<lparr>sb_raw = ''Thanks'', sb_threadId = ''abc123''\<rparr>"
  have h: "reply_head ?lib ?req = Inr ?head"
    by (simp add: reply_head_def set_header_def header_store_parse_def splitlines_def
        is_linebreak_def)
  have t: "reply_thread ?lib ?req ?head ''meeting notes'' = Inr ?composed"
    by (simp add: reply_thread_def set_header_def header_store_parse_def splitlines_def
        is_linebreak_def reply_subject_def startswith_def lower_def lower_char_def)
  have c: "create_message ?lib ?req ?composed = Inr ?body"
    by (simp add: create_message_def)
  from
    reply_swallows_http_error
      [where lib = ?lib and req = ?req and message = ?head
        and svc = "\<lparr>messages_list = \<lambda>q n. Inl OtherError, messages_get = \<lambda>i f. Inl HttpError,
          messages_send = \<lambda>b. Inl OtherError\<rparr>"]
    reply_swallows_http_error
      [where lib = ?lib and req = ?req and message = ?head and msg = ?msg
        and snippet = "''meeting notes''" and composed = ?composed and body = ?body
        and svc = "\<lparr>messages_list = \<lambda>q n. Inl OtherError,
          messages_get = \<lambda>i f. Inr \<lparr>msg_id = Some i, msg_snippet = Some ''meeting notes'',
                                       msg_payload = None\<rparr>,
          messages_send = \<lambda>b. Inl HttpError\<rparr>"]
    reply_swallows_http_error
      [where lib = ?lib and req = ?req and message = ?head and msg = ?msg
        and snippet = "''meeting notes''" and composed = ?composed and body = ?body
        and r = "\<lparr>sr_id = Some ''s1'', sr_threadId = Some ''abc123''\<rparr>" and i = "''s1''"
        and svc = "\<lparr>messages_list = \<lambda>q n. Inl OtherError,
          messages_get = \<lambda>i f. Inr \<lparr>msg_id = Some i, msg_snippet = Some ''meeting notes'',
                                       msg_payload = None\<rparr>,
          messages_send = \<lambda>b. Inr \<lparr>sr_id = Some ''s1'', sr_threadId = Some (sb_threadId b)\<rparr>\<rparr>"]
  show ?thesis
    using h t c by simp
qed

lemma startswith_lower_Re: "startswith (lower (''Re: '' @ s)) ''re:''"
  by (simp add: startswith_def lower_def lower_char_def)

text \<open>
  C8. The \<open>Re:\<close> rule of the reply handler (lines 161-164) is idempotent: applied to its
  own result it changes nothing, for every string.
\<close>

theorem reply_subject_idempotent: "reply_subject (reply_subject s) = reply_subject s"
proof (cases "startswith (lower s) ''re:''")
  case True
  then show ?thesis by (simp add: reply_subject_def)
next
  case False
  then have "reply_subject s = ''Re: '' @ s" by (simp add: reply_subject_def)
  then show ?thesis
    using startswith_lower_Re [of s] by (simp only: reply_subject_def) simp
qed

theorem reply_subject_idempotent_witness:
  "reply_subject ''meeting notes'' = ''Re: meeting notes''
   \<and> reply_subject (reply_subject ''meeting notes'') = ''Re: meeting notes''
   \<and> reply_subject ''RE: plan'' = ''RE: plan''"
  using reply_subject_idempotent [of "''meeting notes''"]
  by (simp add: reply_subject_def startswith_def lower_def lower_char_def)

subsection \<open>The list handler\<close>

text \<open>
  C10. An empty \<open>label\<close> and an absent one give the same remote list query, the empty
  string, and so the same response from the same remote service.
\<close>

theorem empty_label_is_no_label:
  "list_query (Some '''') = '''' \<and> list_query None = ''''
   \<and> get_emails svc (Some '''') = get_emails svc None"
  by (simp add: list_query_def get_emails_def)

section \<open>Properties of the library model\<close>

subsection \<open>Parsing what \<open>isoformat\<close> prints\<close>

text \<open>A decimal digit is one of ten values.\<close>

lemma lt10_cases:
  fixes d :: nat
  assumes "d < 10"
  shows "d \<in> {9, 8, 7, 6, 5, 4, 3, 2, 1, 0}"
  using assms by auto

lemma digit_of_digit_char: "n < 10 \<Longrightarrow> digit_of (digit_char n) = Some n"
  by (drule lt10_cases) (auto simp add: digit_of_def digit_char_def)

lemma digit_char_in: "n < 10 \<Longrightarrow> digit_char n \<in> set ''0123456789''"
  by (drule lt10_cases) (auto simp add: digit_char_def)

lemma length_pad [simp]: "length (pad k n) = k"
  by (induction k arbitrary: n) simp_all

lemma digit_char_not_sign:
  "n < 10 \<Longrightarrow> digit_char n \<noteq> CHR ''-'' \<and> digit_char n \<noteq> CHR ''+''"
  by (drule lt10_cases) (auto simp add: digit_char_def)

lemma pad_no_sign:
  "c \<in> set (pad k n) \<Longrightarrow> c \<noteq> CHR ''-'' \<and> c \<noteq> CHR ''+''"
proof (induction k arbitrary: n)
  case 0
  then show ?case by simp
next
  case (Suc k)
  have "digit_char (n mod 10) \<noteq> CHR ''-'' \<and> digit_char (n mod 10) \<noteq> CHR ''+''"
    by (rule digit_char_not_sign) simp
  with Suc show ?case by auto
qed

lemma digits_value_append:
  "digits_value (xs @ ys) a =
     (case digits_value xs a of None \<Rightarrow> None | Some b \<Rightarrow> digits_value ys b)"
  by (induction xs arbitrary: a) (simp_all split: option.splits)

lemma digits_value_pad: "n < 10 ^ k \<Longrightarrow> digits_value (pad k n) a = Some (a * 10 ^ k + n)"
proof (induction k arbitrary: n a)
  case 0
  then show ?case by simp
next
  case (Suc k)
  have "n div 10 < 10 ^ k" using Suc.prems by (simp add: less_mult_imp_div_less mult.commute)
  then have "digits_value (pad k (n div 10)) a = Some (a * 10 ^ k + n div 10)"
    by (rule Suc.IH)
  moreover have "digit_of (digit_char (n mod 10)) = Some (n mod 10)"
    by (rule digit_of_digit_char) simp
  ultimately show ?case
    by (simp add: digits_value_append algebra_simps)
qed

lemma parse_digits_pad: "0 < k \<Longrightarrow> n < 10 ^ k \<Longrightarrow> parse_digits (pad k n) = Some n"
proof -
  assume k: "0 < k" and n: "n < 10 ^ k"
  have "length (pad k n) \<noteq> 0" using k by simp
  then have "pad k n \<noteq> []" by (simp del: length_pad)
  then show ?thesis using digits_value_pad [OF n, of 0] by (simp add: parse_digits_def)
qed

lemma parse_date_segments:
  assumes "length a = 4" "length b = 2" "length c = 2"
    and "parse_digits a = Some y" "parse_digits b = Some m" "parse_digits c = Some d"
  shows "parse_isoformat_date (a @ CHR ''-'' # b @ CHR ''-'' # c) = Some (y, m, d)"
  using assms by (simp add: parse_isoformat_date_def nth_append)

lemma parse_isoformat_date_isoformat:
  assumes "d_year d < 10000" "d_month d < 100" "d_day d < 100"
  shows "parse_isoformat_date (isoformat_date d) = Some (d_year d, d_month d, d_day d)"
proof -
  have "parse_digits (pad 4 (d_year d)) = Some (d_year d)"
    using assms(1) by (intro parse_digits_pad) simp_all
  moreover have "parse_digits (pad 2 (d_month d)) = Some (d_month d)"
    using assms(2) by (intro parse_digits_pad) simp_all
  moreover have "parse_digits (pad 2 (d_day d)) = Some (d_day d)"
    using assms(3) by (intro parse_digits_pad) simp_all
  ultimately show ?thesis
    unfolding isoformat_date_def
    using parse_date_segments [of "pad 4 (d_year d)" "pad 2 (d_month d)" "pad 2 (d_day d)"]
    by simp
qed

lemma length_isoformat_date [simp]: "length (isoformat_date d) = 10"
  by (simp add: isoformat_date_def)

lemma parse_time_segments:
  assumes "length a = 2" "length b = 2" "length c = 2"
    and "parse_digits a = Some h" "parse_digits b = Some m" "parse_digits c = Some s"
  shows "parse_hh_mm_ss_ff (a @ CHR '':'' # b @ CHR '':'' # c) = Some (h, m, s, 0)"
  using assms by (simp add: parse_hh_mm_ss_ff_def nth_append)

lemma parse_time_frac_segments:
  assumes "length a = 2" "length b = 2" "length c = 2" "length f = 6"
    and "parse_digits a = Some h" "parse_digits b = Some m" "parse_digits c = Some s"
    and "parse_digits f = Some u"
  shows "parse_hh_mm_ss_ff (a @ CHR '':'' # b @ CHR '':'' # c @ CHR ''.'' # f) = Some (h, m, s, u)"
  using assms by (simp add: parse_hh_mm_ss_ff_def nth_append)

lemma parse_hh_mm_segments:
  assumes "length a = 2" "length b = 2"
    and "parse_digits a = Some h" "parse_digits b = Some m"
  shows "parse_hh_mm_ss_ff (a @ CHR '':'' # b) = Some (h, m, 0, 0)"
  using assms by (simp add: parse_hh_mm_ss_ff_def nth_append)

lemma parse_time_isoformat:
  assumes "valid_time t"
  shows "parse_hh_mm_ss_ff (isoformat_time t) =
           Some (t_hour t, t_minute t, t_second t, t_microsecond t)"
proof -
  have h: "parse_digits (pad 2 (t_hour t)) = Some (t_hour t)"
    using assms by (intro parse_digits_pad) (simp_all add: valid_time_def)
  have m: "parse_digits (pad 2 (t_minute t)) = Some (t_minute t)"
    using assms by (intro parse_digits_pad) (simp_all add: valid_time_def)
  have s: "parse_digits (pad 2 (t_second t)) = Some (t_second t)"
    using assms by (intro parse_digits_pad) (simp_all add: valid_time_def)
  have u: "parse_digits (pad 6 (t_microsecond t)) = Some (t_microsecond t)"
    using assms by (intro parse_digits_pad) (simp_all add: valid_time_def)
  show ?thesis
  proof (cases "t_microsecond t = 0")
    case True
    then show ?thesis
      unfolding isoformat_time_def
      using parse_time_segments [OF _ _ _ h m s] by simp
  next
    case False
    then show ?thesis
      unfolding isoformat_time_def
      using parse_time_frac_segments [OF _ _ _ _ h m s u] by simp
  qed
qed

lemma isoformat_time_no_sign:
  "c \<in> set (isoformat_time t) \<Longrightarrow> c \<noteq> CHR ''-'' \<and> c \<noteq> CHR ''+''"
  by (auto simp: isoformat_time_def dest: pad_no_sign split: if_splits)

lemma takeWhile_upto:
  "(\<And>c. c \<in> set xs \<Longrightarrow> P c) \<Longrightarrow> \<not> P x \<Longrightarrow> takeWhile P (xs @ x # ys) = xs"
  by (simp add: takeWhile_tail)

lemma dropWhile_upto:
  "(\<And>c. c \<in> set xs \<Longrightarrow> P c) \<Longrightarrow> \<not> P x \<Longrightarrow> dropWhile P (xs @ x # ys) = x # ys"
  by (simp add: dropWhile_append3)

lemma split_offset_minus:
  assumes "\<And>c. c \<in> set t \<Longrightarrow> c \<noteq> CHR ''-'' \<and> c \<noteq> CHR ''+''"
  shows "split_offset (t @ CHR ''-'' # z) = (t, Some (CHR ''-'', z))"
proof -
  have "takeWhile (\<lambda>c. c \<noteq> CHR ''-'') (t @ CHR ''-'' # z) = t"
    using assms by (intro takeWhile_upto) simp_all
  moreover have "dropWhile (\<lambda>c. c \<noteq> CHR ''-'') (t @ CHR ''-'' # z) = CHR ''-'' # z"
    using assms by (intro dropWhile_upto) simp_all
  ultimately show ?thesis by (simp add: split_offset_def)
qed

lemma split_offset_plus:
  assumes "\<And>c. c \<in> set t \<Longrightarrow> c \<noteq> CHR ''-'' \<and> c \<noteq> CHR ''+''"
    and "CHR ''-'' \<notin> set z"
  shows "split_offset (t @ CHR ''+'' # z) = (t, Some (CHR ''+'', z))"
proof -
  have "takeWhile (\<lambda>c. c \<noteq> CHR ''+'') (t @ CHR ''+'' # z) = t"
    using assms(1) by (intro takeWhile_upto) simp_all
  moreover have "dropWhile (\<lambda>c. c \<noteq> CHR ''+'') (t @ CHR ''+'' # z) = CHR ''+'' # z"
    using assms(1) by (intro dropWhile_upto) simp_all
  moreover have "CHR ''-'' \<notin> set (t @ CHR ''+'' # z)"
    using assms by auto
  ultimately show ?thesis by (simp add: split_offset_def)
qed

lemma split_offset_none:
  assumes "\<And>c. c \<in> set t \<Longrightarrow> c \<noteq> CHR ''-'' \<and> c \<noteq> CHR ''+''"
  shows "split_offset t = (t, None)"
  using assms by (auto simp: split_offset_def)

lemma parse_offset_pad:
  assumes "h < 24" "m < 60"
  shows "parse_offset sign (pad 2 h @ CHR '':'' # pad 2 m) =
           Some (if sign = CHR ''-'' then - int (60 * h + m) else int (60 * h + m))"
proof -
  have h: "parse_digits (pad 2 h) = Some h"
    using assms by (intro parse_digits_pad) simp_all
  have m: "parse_digits (pad 2 m) = Some m"
    using assms by (intro parse_digits_pad) simp_all
  have "parse_hh_mm_ss_ff (pad 2 h @ CHR '':'' # pad 2 m) = Some (h, m, 0, 0)"
    using parse_hh_mm_segments [OF _ _ h m] by simp
  then show ?thesis using assms by (simp add: parse_offset_def)
qed

lemma offset_tail_no_minus: "CHR ''-'' \<notin> set (pad 2 h @ CHR '':'' # pad 2 m)"
  by (auto dest: pad_no_sign)

lemma parse_isoformat_time_offset:
  assumes "valid_time t" and "- 1440 < off" and "off < 1440"
  shows "parse_isoformat_time (isoformat_time t @ isoformat_offset off) = Some (t, Some off)"
proof -
  let ?a = "nat \<bar>off\<bar>"
  have hm: "?a div 60 < 24" "?a mod 60 < 60" using assms(2,3) by auto
  have a: "int (60 * (?a div 60) + ?a mod 60) = \<bar>off\<bar>" by simp
  have tm: "parse_hh_mm_ss_ff (isoformat_time t) =
      Some (t_hour t, t_minute t, t_second t, t_microsecond t)"
    using assms(1) by (rule parse_time_isoformat)
  show ?thesis
  proof (cases "off < 0")
    case True
    then have "isoformat_time t @ isoformat_offset off =
        isoformat_time t @ CHR ''-'' # (pad 2 (?a div 60) @ CHR '':'' # pad 2 (?a mod 60))"
      by (simp add: isoformat_offset_def)
    moreover have "split_offset \<dots> =
        (isoformat_time t, Some (CHR ''-'', pad 2 (?a div 60) @ CHR '':'' # pad 2 (?a mod 60)))"
      by (rule split_offset_minus) (erule isoformat_time_no_sign)
    ultimately show ?thesis
      using tm parse_offset_pad [OF hm, of "CHR ''-''"] a True
      by (simp add: parse_isoformat_time_def del: of_nat_add of_nat_mult)
  next
    case False
    then have "isoformat_time t @ isoformat_offset off =
        isoformat_time t @ CHR ''+'' # (pad 2 (?a div 60) @ CHR '':'' # pad 2 (?a mod 60))"
      by (simp add: isoformat_offset_def)
    moreover have "split_offset \<dots> =
        (isoformat_time t, Some (CHR ''+'', pad 2 (?a div 60) @ CHR '':'' # pad 2 (?a mod 60)))"
      by (rule split_offset_plus) (erule isoformat_time_no_sign, rule offset_tail_no_minus)
    ultimately show ?thesis
      using tm parse_offset_pad [OF hm, of "CHR ''+''"] a False
      by (simp add: parse_isoformat_time_def del: of_nat_add of_nat_mult)
  qed
qed

lemma parse_isoformat_time_naive:
  assumes "valid_time t"
  shows "parse_isoformat_time (isoformat_time t) = Some (t, None)"
  using parse_time_isoformat [OF assms] split_offset_none [of "isoformat_time t"]
    isoformat_time_no_sign [of _ t]
  by (simp add: parse_isoformat_time_def)

lemma length_isoformat_time_pos: "0 < length (isoformat_time t)"
  by (simp add: isoformat_time_def)

lemma date_eta [simp]: "\<lparr>d_year = d_year d, d_month = d_month d, d_day = d_day d\<rparr> = d"
  by (cases d) simp

lemma datetime_eta [simp]:
  "\<lparr>dt_date = dt_date dt, dt_time = dt_time dt, dt_tzinfo = dt_tzinfo dt\<rparr> = dt"
  by (cases dt) simp

lemma fromisoformat_isoformat:
  assumes "valid_datetime dt"
  shows "fromisoformat (isoformat dt) = Inr dt"
proof -
  let ?d = "dt_date dt" and ?t = "dt_time dt"
  let ?rest = "isoformat_time ?t @ (case dt_tzinfo dt of None \<Rightarrow> [] | Some off \<Rightarrow> isoformat_offset off)"
  from assms have vd: "valid_date ?d" and vt: "valid_time ?t" and vo: "valid_offset (dt_tzinfo dt)"
    by (simp_all add: valid_datetime_def)
  have s: "isoformat dt = isoformat_date ?d @ CHR ''T'' # ?rest"
    by (simp add: isoformat_def)
  have take: "take 10 (isoformat dt) = isoformat_date ?d"
    and drop: "drop 11 (isoformat dt) = ?rest"
    and len: "length (isoformat dt) \<noteq> 10"
    unfolding s by simp_all
  have "d_day ?d \<le> 31" using vd by (simp add: valid_date_def days_in_month_def split: if_splits)
  then have date: "parse_isoformat_date (isoformat_date ?d) = Some (d_year ?d, d_month ?d, d_day ?d)"
    using vd by (intro parse_isoformat_date_isoformat) (simp_all add: valid_date_def)
  have time: "parse_isoformat_time ?rest = Some (?t, dt_tzinfo dt)"
  proof (cases "dt_tzinfo dt")
    case None
    then show ?thesis using parse_isoformat_time_naive [OF vt] by simp
  next
    case (Some off)
    with vo have "- 1440 < off" "off < 1440" by (simp_all add: valid_offset_def)
    with Some show ?thesis using parse_isoformat_time_offset [OF vt] by simp
  qed
  show ?thesis
    using vd vt by (simp add: fromisoformat_def take drop len date time make_datetime_def)
qed

lemma parse_offset_range:
  "parse_offset sign z = Some off \<Longrightarrow> - 1440 < off \<and> off < 1440"
  by (auto simp: parse_offset_def split: if_splits option.splits)

lemma parse_isoformat_time_offset_range:
  "parse_isoformat_time t = Some (tm, tz) \<Longrightarrow> valid_offset tz"
  by (auto simp: parse_isoformat_time_def valid_offset_def Let_def
      dest: parse_offset_range split: prod.splits option.splits)

lemma make_datetime_valid:
  "make_datetime ymd (tm, tz) = Inr dt \<Longrightarrow> valid_offset tz \<Longrightarrow> valid_datetime dt"
  by (auto simp: make_datetime_def valid_datetime_def Let_def split: prod.splits if_splits)

lemma fromisoformat_valid:
  assumes "fromisoformat s = Inr dt"
  shows "valid_datetime dt"
proof -
  from assms obtain ymd where ymd: "parse_isoformat_date (take 10 s) = Some ymd"
    by (auto simp: fromisoformat_def split: option.splits)
  show ?thesis
  proof (cases "length s = 10")
    case True
    with assms ymd have "make_datetime ymd (midnight, None) = Inr dt"
      by (simp add: fromisoformat_def)
    then show ?thesis by (rule make_datetime_valid) (simp add: valid_offset_def)
  next
    case False
    with assms ymd obtain tm tz where t: "parse_isoformat_time (drop 11 s) = Some (tm, tz)"
      and m: "make_datetime ymd (tm, tz) = Inr dt"
      by (auto simp: fromisoformat_def split: option.splits)
    from m parse_isoformat_time_offset_range [OF t] show ?thesis
      by (rule make_datetime_valid)
  qed
qed


section \<open>Properties of the calendar handlers\<close>

subsection \<open>Creating an event: the adjusted start\<close>

lemma pad_digits: "c \<in> set (pad k n) \<Longrightarrow> c \<in> set ''0123456789''"
proof (induction k arbitrary: n)
  case 0
  then show ?case by simp
next
  case (Suc k)
  from Suc.prems consider "c \<in> set (pad k (n div 10))" | "c = digit_char (n mod 10)"
    by fastforce
  then show ?case
  proof cases
    case 1
    then show ?thesis by (rule Suc.IH)
  next
    case 2
    have "digit_char (n mod 10) \<in> set ''0123456789''" by (rule digit_char_in) simp
    with 2 show ?thesis by (simp only:)
  qed
qed

lemma pad_2: "pad 2 n = [digit_char (n div 10 mod 10), digit_char (n mod 10)]"
  by (simp add: numeral_2_eq_2)

lemma digit_char_plain:
  assumes "n < 10"
  shows "\<not> is_space (digit_char n)" "digit_char n \<noteq> CHR ''_''" "digit_char n \<noteq> CHR '':''"
  using digit_char_in [OF assms] by (auto simp: is_space_def)

lemma int_digits_pad_2: "n < 100 \<Longrightarrow> int_digits (pad 2 n) 0 = Some n"
proof -
  assume n: "n < 100"
  then have d: "n div 10 mod 10 = n div 10" by simp
  have a: "digit_of (digit_char (n div 10)) = Some (n div 10)"
    using n by (intro digit_of_digit_char) simp
  have b: "digit_of (digit_char (n mod 10)) = Some (n mod 10)"
    by (rule digit_of_digit_char) simp
  have c: "digit_char (n mod 10) \<noteq> CHR ''_''" by (rule digit_char_plain) simp
  show ?thesis by (simp add: pad_2 d a b c)
qed

lemma strip_plain:
  assumes "\<not> is_space c" and "\<not> is_space d"
  shows "strip (c # xs @ [d]) = c # xs @ [d]"
  using assms by (simp add: strip_def)

lemma py_int_offset_hours:
  assumes "- 24 < h" and "h < 24"
  shows "py_int (before_colon (isoformat_offset (60 * h))) = Inr h"
proof -
  let ?n = "nat \<bar>h\<bar>"
  let ?a = "digit_char (?n div 10 mod 10)" and ?b = "digit_char (?n mod 10)"
  let ?sign = "if h < 0 then CHR ''-'' else CHR ''+''"
  have n: "?n < 100" using assms by simp
  have dm: "nat \<bar>60 * h\<bar> div 60 = ?n" "nat \<bar>60 * h\<bar> mod 60 = 0"
    by (simp_all add: abs_mult nat_mult_distrib)
  have off: "isoformat_offset (60 * h) = ?sign # pad 2 ?n @ CHR '':'' # pad 2 0"
    using dm by (simp add: isoformat_offset_def)
  have nc: "?a \<noteq> CHR '':''" "?b \<noteq> CHR '':''" by (rule digit_char_plain, simp)+
  have bc: "before_colon (isoformat_offset (60 * h)) = ?sign # [?a] @ [?b]"
    unfolding off before_colon_def using nc by (simp add: pad_2)
  have sp: "\<not> is_space ?sign" "\<not> is_space ?b"
    by (simp add: is_space_def, rule digit_char_plain, simp)
  have st: "strip (?sign # [?a] @ [?b]) = ?sign # [?a] @ [?b]"
    using sp by (rule strip_plain)
  have dg: "int_digits [?a, ?b] 0 = Some ?n"
    using int_digits_pad_2 [OF n] by (simp add: pad_2)
  show ?thesis
    unfolding bc py_int_def st using dg assms by simp
qed

lemma hours_timezone_ok: "- 24 < h \<Longrightarrow> h < 24 \<Longrightarrow> hours_timezone h = Inr (60 * h)"
  by (simp add: hours_timezone_def)

lemma adjust_datetime_offset:
  assumes today: "valid_date today"
    and parse: "fromisoformat (replace_Z s) = Inr dt"
    and off: "dt_tzinfo dt = Some (60 * h)"
  shows "adjust_datetime today (Some s) (Some (isoformat_offset (60 * h))) =
           Inr (isoformat \<lparr>dt_date = today, dt_time = dt_time dt, dt_tzinfo = Some (60 * h)\<rparr>)"
    and "fromisoformat (isoformat \<lparr>dt_date = today, dt_time = dt_time dt, dt_tzinfo = Some (60 * h)\<rparr>)
           = Inr \<lparr>dt_date = today, dt_time = dt_time dt, dt_tzinfo = Some (60 * h)\<rparr>"
proof -
  have v: "valid_datetime dt" using parse by (rule fromisoformat_valid)
  with off have h: "- 24 < h" "h < 24" by (simp_all add: valid_datetime_def valid_offset_def)
  show "adjust_datetime today (Some s) (Some (isoformat_offset (60 * h))) =
           Inr (isoformat \<lparr>dt_date = today, dt_time = dt_time dt, dt_tzinfo = Some (60 * h)\<rparr>)"
    using parse py_int_offset_hours [OF h] hours_timezone_ok [OF h]
    by (simp add: adjust_datetime_def)
  have "valid_datetime \<lparr>dt_date = today, dt_time = dt_time dt, dt_tzinfo = Some (60 * h)\<rparr>"
    using v today h by (simp add: valid_datetime_def valid_offset_def)
  then show "fromisoformat (isoformat \<lparr>dt_date = today, dt_time = dt_time dt, dt_tzinfo = Some (60 * h)\<rparr>)
           = Inr \<lparr>dt_date = today, dt_time = dt_time dt, dt_tzinfo = Some (60 * h)\<rparr>"
    by (rule fromisoformat_isoformat)
qed

lemma adjust_end_keeps_start:
  "adjust_end today d = Inr d' \<Longrightarrow> cec_start d' = cec_start d"
  by (auto simp: adjust_end_def split: if_splits sum.splits)

lemma pad_numeral: "pad (numeral k) n = pad (pred_numeral k) (n div 10) @ [digit_char (n mod 10)]"
  by (simp only: numeral_eq_Suc [of k] pad.simps)

lemmas parse_defs = fromisoformat_def parse_isoformat_date_def parse_isoformat_time_def
  parse_hh_mm_ss_ff_def split_offset_def parse_offset_def make_datetime_def parse_digits_def
  digit_of_def valid_date_def valid_time_def days_in_month_def is_leap_def midnight_def
  replace_Z_def Let_def

lemmas print_defs = isoformat_def isoformat_date_def isoformat_time_def isoformat_offset_def
  digit_char_def pad_numeral

lemma adjust_start_today:
  assumes "valid_date today"
    and "edt_dateTime (cec_start ev) = Val s"
    and "edt_timeZone (cec_start ev) = Val (isoformat_offset (60 * h))"
    and "fromisoformat (replace_Z s) = Inr dt"
    and "dt_tzinfo dt = Some (60 * h)"
  shows "adjust_start today ev =
           Inr (ev\<lparr>cec_start := (cec_start ev)\<lparr>edt_dateTime :=
             Val (isoformat \<lparr>dt_date = today, dt_time = dt_time dt, dt_tzinfo = Some (60 * h)\<rparr>)\<rparr>\<rparr>)"
proof -
  have "adjust_datetime today (Some s) (Some (isoformat_offset (60 * h))) =
      Inr (isoformat \<lparr>dt_date = today, dt_time = dt_time dt, dt_tzinfo = Some (60 * h)\<rparr>)"
    using assms(1,4,5) by (rule adjust_datetime_offset)
  with assms(2,3) show ?thesis
    by (simp add: adjust_start_def field_get_def field_value_def)
qed

text \<open>
  The end is adjusted after the start, on the dictionary whose start has its new
  \<open>dateTime\<close>; it reads the \<open>timeZone\<close> of the start only.
\<close>

lemma adjust_end_after_start:
  assumes "adjust_end today ev = Inr ev'"
  shows "adjust_end today (ev\<lparr>cec_start := (cec_start ev)\<lparr>edt_dateTime := v\<rparr>\<rparr>) =
           Inr (ev'\<lparr>cec_start := (cec_start ev)\<lparr>edt_dateTime := v\<rparr>\<rparr>)"
  using assms
  by (auto simp add: adjust_end_def end_timezone_def split: if_splits sum.splits)

text \<open>
  C2, as amended. Let the start of a create request carry a \<open>dateTime\<close> that
  \<open>fromisoformat\<close> reads (after \<open>Z\<close> has become \<open>+00:00\<close>) as a datetime with the
  whole-hour offset \<open>h\<close>, and as \<open>timeZone\<close> that offset written as sign, \<open>HH:MM\<close>;
  and let the end of the request be adjusted without error, to \<open>ev'\<close>. Then the handler
  calls the remote \<open>insert\<close> with the body \<open>ev'\<close> whose start \<open>dateTime\<close> is the text
  of the datetime that has the current UTC date, the time of day of the input and the
  offset of the input, and answers with the outcome of that call; read back, that text
  gives exactly this datetime.
\<close>

theorem create_submits_adjusted_start:
  assumes "valid_date today"
    and "edt_dateTime (cec_start ev) = Val s"
    and "edt_timeZone (cec_start ev) = Val (isoformat_offset (60 * h))"
    and "fromisoformat (replace_Z s) = Inr dt"
    and "dt_tzinfo dt = Some (60 * h)"
    and "adjust_end today ev = Inr ev'"
  shows "create_calendar_event svc today ev =
           (case events_insert svc ''primary''
                   (ev'\<lparr>cec_start := (cec_start ev)\<lparr>edt_dateTime :=
                      Val (isoformat \<lparr>dt_date = today, dt_time = dt_time dt,
                                       dt_tzinfo = Some (60 * h)\<rparr>)\<rparr>\<rparr>)
                   ''all'' of
              Inl e \<Rightarrow> Inl (server_error e)
            | Inr event \<Rightarrow> Inr (created_projection event))
     \<and> fromisoformat (isoformat \<lparr>dt_date = today, dt_time = dt_time dt, dt_tzinfo = Some (60 * h)\<rparr>)
         = Inr \<lparr>dt_date = today, dt_time = dt_time dt, dt_tzinfo = Some (60 * h)\<rparr>"
proof -
  let ?out = "isoformat \<lparr>dt_date = today, dt_time = dt_time dt, dt_tzinfo = Some (60 * h)\<rparr>"
  have rt: "fromisoformat ?out = Inr \<lparr>dt_date = today, dt_time = dt_time dt, dt_tzinfo = Some (60 * h)\<rparr>"
    using assms(1,4,5) by (rule adjust_datetime_offset)
  have st: "adjust_start today ev = Inr (ev\<lparr>cec_start := (cec_start ev)\<lparr>edt_dateTime := Val ?out\<rparr>\<rparr>)"
    using assms(1-5) by (rule adjust_start_today)
  have en: "adjust_end today (ev\<lparr>cec_start := (cec_start ev)\<lparr>edt_dateTime := Val ?out\<rparr>\<rparr>) =
      Inr (ev'\<lparr>cec_start := (cec_start ev)\<lparr>edt_dateTime := Val ?out\<rparr>\<rparr>)"
    using assms(6) by (rule adjust_end_after_start)
  have "adjust_event today ev = Inr (ev'\<lparr>cec_start := (cec_start ev)\<lparr>edt_dateTime := Val ?out\<rparr>\<rparr>)"
    using st en by (simp add: adjust_event_def)
  then have "create_calendar_event svc today ev =
      (case events_insert svc ''primary''
              (ev'\<lparr>cec_start := (cec_start ev)\<lparr>edt_dateTime := Val ?out\<rparr>\<rparr>) ''all'' of
         Inl e \<Rightarrow> Inl (server_error e)
       | Inr event \<Rightarrow> Inr (created_projection event))"
    by (simp add: create_calendar_event_def)
  with rt show ?thesis by (simp only: simp_thms)
qed

text \<open>
  The scenario of the specification: \<open>2025-09-22T09:00:00+08:00\<close> submitted on the UTC
  date 2025-10-01 becomes \<open>2025-10-01T09:00:00+08:00\<close>. The remote service of the
  example answers with the start and the end of the body it is given.
\<close>

theorem create_submits_adjusted_start_witness:
  "create_calendar_event
     \<lparr>events_list = \<lambda>params. Inl OtherError,
      events_insert = \<lambda>calendarId body sendUpdates.
        Inr \<lparr>re_id = Some ''e1'', re_summary = Some (cec_summary body), re_htmlLink = None,
             re_status = Some ''confirmed'', re_created = None, re_updated = None,
             re_start = Some \<lparr>ret_dateTime = field_value (edt_dateTime (cec_start body)),
                               ret_date = None,
                               ret_timeZone = field_value (edt_timeZone (cec_start body))\<rparr>,
             re_end = Some \<lparr>ret_dateTime = field_value (edt_dateTime (cec_end body)),
                             ret_date = None,
                             ret_timeZone = field_value (edt_timeZone (cec_end body))\<rparr>\<rparr>,
      events_update = \<lambda>calendarId eventId body. Inl OtherError\<rparr>
     \<lparr>d_year = 2025, d_month = 10, d_day = 1\<rparr>
     \<lparr>cec_summary = ''Test Event'', cec_location = Unset, cec_description = Unset,
      cec_start = \<lparr>edt_date = Unset, edt_dateTime = Val ''2025-09-22T09:00:00+08:00'',
                    edt_timeZone = Val ''+08:00''\<rparr>,
      cec_end = \<lparr>edt_date = Unset, edt_dateTime = Val ''2025-09-22T10:00:00+08:00'',
                  edt_timeZone = Unset\<rparr>,
      cec_attendees = Unset, cec_reminders = Unset, cec_recurrence = Unset\<rparr>
   = Inr \<lparr>ce_eventId = Some ''e1'', ce_htmlLink = None, ce_summary = Some ''Test Event'',
          ce_status = Some ''confirmed'', ce_created = None, ce_updated = None,
          ce_start = Some ''2025-10-01T09:00:00+08:00'',
          ce_end = Some ''2025-10-01T10:00:00+08:00'',
          ce_timeZone = Some ''+08:00''\<rparr>
   \<and> fromisoformat ''2025-10-01T09:00:00+08:00''
       = Inr \<lparr>dt_date = \<lparr>d_year = 2025, d_month = 10, d_day = 1\<rparr>,
              dt_time = \<lparr>t_hour = 9, t_minute = 0, t_second = 0, t_microsecond = 0\<rparr>,
              dt_tzinfo = Some 480\<rparr>"
proof -
  let ?today = "\<lparr>d_year = 2025, d_month = 10, d_day = 1\<rparr>"
  let ?tm = "\<lparr>t_hour = 9, t_minute = 0, t_second = 0, t_microsecond = 0\<rparr>"
  let ?dt = "\<lparr>dt_date = \<lparr>d_year = 2025, d_month = 9, d_day = 22\<rparr>, dt_time = ?tm,
              dt_tzinfo = Some (60 * 8)\<rparr>"
  let ?start = "\<lparr>edt_date = Unset, edt_dateTime = Val ''2025-09-22T09:00:00+08:00'',
                    edt_timeZone = Val ''+08:00''\<rparr>"
  let ?ev = "\<lparr>cec_summary = ''Test Event'', cec_location = Unset, cec_description = Unset,
      cec_start = ?start,
      cec_end = \<lparr>edt_date = Unset, edt_dateTime = Val ''2025-09-22T10:00:00+08:00'',
                  edt_timeZone = Unset\<rparr>,
      cec_attendees = Unset, cec_reminders = Unset, cec_recurrence = Unset\<rparr>"
  let ?ev' = "\<lparr>cec_summary = ''Test Event'', cec_location = Unset, cec_description = Unset,
      cec_start = ?start,
      cec_end = \<lparr>edt_date = Unset, edt_dateTime = Val ''2025-10-01T10:00:00+08:00'',
                  edt_timeZone = Unset\<rparr>,
      cec_attendees = Unset, cec_reminders = Unset, cec_recurrence = Unset\<rparr>"
  have v: "valid_date ?today"
    by (simp add: valid_date_def days_in_month_def)
  have z: "isoformat_offset (60 * 8) = ''+08:00''"
    by (simp add: print_defs)
  have p: "fromisoformat (replace_Z ''2025-09-22T09:00:00+08:00'') = Inr ?dt"
    by (simp add: parse_defs)
  have i: "isoformat \<lparr>dt_date = ?today, dt_time = ?tm, dt_tzinfo = Some (60 * 8)\<rparr>
      = ''2025-10-01T09:00:00+08:00''"
    by (simp add: print_defs)
  have q: "fromisoformat (replace_Z ''2025-09-22T10:00:00+08:00'')
      = Inr \<lparr>dt_date = \<lparr>d_year = 2025, d_month = 9, d_day = 22\<rparr>,
             dt_time = \<lparr>t_hour = 10, t_minute = 0, t_second = 0, t_microsecond = 0\<rparr>,
             dt_tzinfo = Some 480\<rparr>"
    by (simp add: parse_defs)
  have n: "py_int (before_colon ''+08:00'') = Inr 8"
    by (simp add: py_int_def before_colon_def strip_def is_space_def digit_of_def)
  have j: "isoformat \<lparr>dt_date = ?today,
      dt_time = \<lparr>t_hour = 10, t_minute = 0, t_second = 0, t_microsecond = 0\<rparr>,
      dt_tzinfo = Some 480\<rparr> = ''2025-10-01T10:00:00+08:00''"
    by (simp add: print_defs)
  have a: "adjust_datetime ?today (Some ''2025-09-22T10:00:00+08:00'') (Some ''+08:00'')
      = Inr ''2025-10-01T10:00:00+08:00''"
    using q n j by (simp add: adjust_datetime_def hours_timezone_def)
  have e: "adjust_end ?today ?ev = Inr ?ev'"
    using a by (simp add: adjust_end_def end_timezone_def field_get_def field_value_def)
  from create_submits_adjusted_start
    [where today = ?today and ev = ?ev and s = "''2025-09-22T09:00:00+08:00''" and h = 8
      and dt = ?dt and ev' = ?ev', OF v _ _ p _ e]
  show ?thesis
    using z i by (simp add: created_projection_def field_value_def)
qed

text \<open>
  C2 as stated speaks of every RFC 3339 datetime. The leap second that RFC 3339 gives as
  an example (section 5.8), \<open>1990-12-31T15:59:60-08:00\<close>, with its offset \<open>-08:00\<close> as
  \<open>timeZone\<close>, is one; \<open>fromisoformat\<close> takes no second 60, so on every date and
  with every remote service the handler answers 500 and submits nothing.
\<close>

theorem leap_second_counterexample:
  "rfc3339_date_time ''1990-12-31T15:59:60-08:00''
   \<and> (\<forall>svc today.
        create_calendar_event svc today
          \<lparr>cec_summary = ''Test Event'', cec_location = Unset, cec_description = Unset,
           cec_start = \<lparr>edt_date = Unset, edt_dateTime = Val ''1990-12-31T15:59:60-08:00'',
                         edt_timeZone = Val ''-08:00''\<rparr>,
           cec_end = \<lparr>edt_date = Unset, edt_dateTime = Unset, edt_timeZone = Unset\<rparr>,
           cec_attendees = Unset, cec_reminders = Unset, cec_recurrence = Unset\<rparr>
        = Inl (HTTPException 500 '''' ValueError))"
proof -
  have r: "rfc3339_date_time ''1990-12-31T15:59:60-08:00''"
    by (simp add: rfc3339_date_time_def rfc3339_full_date_def rfc3339_full_time_def
        rfc3339_numoffset_def rfc3339_partial_time_def rfc3339_secfrac_def
        parse_isoformat_date_def parse_hh_mm_ss_ff_def parse_digits_def digit_of_def
        days_in_month_def is_leap_def Let_def)
  have p: "fromisoformat (replace_Z ''1990-12-31T15:59:60-08:00'') = Inl ValueError"
    by (simp add: parse_defs)
  have "adjust_datetime today (Some ''1990-12-31T15:59:60-08:00'') (Some ''-08:00'')
      = Inl ValueError" for today
    using p by (simp add: adjust_datetime_def)
  then show ?thesis
    using r
    by (simp add: create_calendar_event_def adjust_event_def adjust_start_def field_get_def
        field_value_def server_error_def)
qed

subsection \<open>Listing: only events of today\<close>

lemma simplify_events_today:
  "simplify_events today events = Inr out \<Longrightarrow> se \<in> set out \<Longrightarrow>
   \<exists>raw. raw \<in> set events \<and> event_start raw = Inr (se_start se)
     \<and> se_eventId se = re_id raw \<and> start_date (se_start se) = Inr today"
proof (induction events arbitrary: out)
  case Nil
  then show ?case by simp
next
  case (Cons event events)
  from Cons.prems(1) obtain start d where start: "event_start event = Inr start"
    and d: "start_date start = Inr d"
    by (auto split: sum.splits)
  show ?case
  proof (cases "d = today")
    case True
    with Cons.prems(1) start d obtain en rest where en: "event_end event = Inr en"
      and rest: "simplify_events today events = Inr rest"
      and out: "out = \<lparr>se_eventId = re_id event,
                         se_summary = get_or (re_summary event) ''No Title'',
                         se_start = start, se_end = en\<rparr> # rest"
      by (auto split: sum.splits)
    from Cons.prems(2) out consider
        "se = \<lparr>se_eventId = re_id event, se_summary = get_or (re_summary event) ''No Title'',
                se_start = start, se_end = en\<rparr>"
      | "se \<in> set rest"
      by auto
    then show ?thesis
    proof cases
      case 1
      with start d True have "event \<in> set (event # events) \<and> event_start event = Inr (se_start se)
          \<and> se_eventId se = re_id event \<and> start_date (se_start se) = Inr today"
        by simp
      then show ?thesis by (rule exI)
    next
      case 2
      from Cons.IH [OF rest 2] obtain raw where "raw \<in> set events"
        "event_start raw = Inr (se_start se)" "se_eventId se = re_id raw"
        "start_date (se_start se) = Inr today"
        by blast
      then have "raw \<in> set (event # events) \<and> event_start raw = Inr (se_start se)
          \<and> se_eventId se = re_id raw \<and> start_date (se_start se) = Inr today"
        by simp
      then show ?thesis by (rule exI)
    qed
  next
    case False
    with Cons.prems(1) start d have rest: "simplify_events today events = Inr out"
      by simp
    from Cons.IH [OF rest Cons.prems(2)] obtain raw where "raw \<in> set events"
      "event_start raw = Inr (se_start se)" "se_eventId se = re_id raw"
      "start_date (se_start se) = Inr today"
      by blast
    then have "raw \<in> set (event # events) \<and> event_start raw = Inr (se_start se)
        \<and> se_eventId se = re_id raw \<and> start_date (se_start se) = Inr today"
      by simp
    then show ?thesis by (rule exI)
  qed
qed

text \<open>
  C3. Every event in the response of the list handler comes from a raw event of the
  remote query whose start value (\<open>dateTime\<close> before \<open>date\<close>) is the start of the
  listed event, and the date computed from that start value, by parsing it with \<open>Z\<close>
  read as \<open>+00:00\<close> and taking the date part, is the current UTC date.
\<close>

theorem listed_events_are_today:
  assumes "get_calendar_events svc today = Inr out" and "se \<in> set out"
  shows "\<exists>res raw. events_list svc (events_query today) = Inr res
       \<and> raw \<in> set (get_or (evr_items res) [])
       \<and> event_start raw = Inr (se_start se)
       \<and> se_eventId se = re_id raw
       \<and> start_date (se_start se) = Inr today"
proof -
  from assms(1) obtain res where res: "events_list svc (events_query today) = Inr res"
    by (auto simp: get_calendar_events_def split: sum.splits)
  let ?events = "get_or (evr_items res) []"
  have "simplify_events today ?events = Inr out"
  proof (cases "?events = []")
    case True
    with assms(1) res show ?thesis by (simp add: get_calendar_events_def)
  next
    case False
    with assms(1) res show ?thesis
      by (simp add: get_calendar_events_def split: sum.splits)
  qed
  from simplify_events_today [OF this assms(2)] res show ?thesis by blast
qed

theorem listed_events_are_today_witness:
  "get_calendar_events
     \<lparr>events_list = \<lambda>q. Inr \<lparr>evr_items = Some
        [\<lparr>re_id = Some ''e1'', re_summary = Some ''Standup'', re_htmlLink = None, re_status = None,
          re_created = None, re_updated = None,
          re_start = Some \<lparr>ret_dateTime = Some ''2025-10-01T09:00:00+08:00'', ret_date = None,
                            ret_timeZone = None\<rparr>,
          re_end = Some \<lparr>ret_dateTime = Some ''2025-10-01T10:00:00+08:00'', ret_date = None,
                          ret_timeZone = None\<rparr>\<rparr>,
         \<lparr>re_id = Some ''e2'', re_summary = None, re_htmlLink = None, re_status = None,
          re_created = None, re_updated = None,
          re_start = Some \<lparr>ret_dateTime = Some ''2025-10-02T00:30:00+08:00'', ret_date = None,
                            ret_timeZone = None\<rparr>,
          re_end = Some \<lparr>ret_dateTime = Some ''2025-10-02T01:00:00+08:00'', ret_date = None,
                          ret_timeZone = None\<rparr>\<rparr>,
         \<lparr>re_id = Some ''e3'', re_summary = None, re_htmlLink = None, re_status = None,
          re_created = None, re_updated = None,
          re_start = Some \<lparr>ret_dateTime = None, ret_date = Some ''2025-10-01'',
                            ret_timeZone = None\<rparr>,
          re_end = Some \<lparr>ret_dateTime = None, ret_date = Some ''2025-10-02'',
                          ret_timeZone = None\<rparr>\<rparr>]\<rparr>,
      events_insert = \<lambda>c b s. Inl OtherError,
      events_update = \<lambda>c i b. Inl OtherError\<rparr>
     \<lparr>d_year = 2025, d_month = 10, d_day = 1\<rparr>
   = Inr [\<lparr>se_eventId = Some ''e1'', se_summary = ''Standup'',
           se_start = ''2025-10-01T09:00:00+08:00'', se_end = Some ''2025-10-01T10:00:00+08:00''\<rparr>,
          \<lparr>se_eventId = Some ''e3'', se_summary = ''No Title'',
           se_start = ''2025-10-01'', se_end = Some ''2025-10-02''\<rparr>]
   \<and> start_date ''2025-10-01T09:00:00+08:00'' = Inr \<lparr>d_year = 2025, d_month = 10, d_day = 1\<rparr>
   \<and> start_date ''2025-10-02T00:30:00+08:00'' = Inr \<lparr>d_year = 2025, d_month = 10, d_day = 2\<rparr>
   \<and> start_date ''2025-10-01'' = Inr \<lparr>d_year = 2025, d_month = 10, d_day = 1\<rparr>"
proof -
  have d1: "start_date ''2025-10-01T09:00:00+08:00'' = Inr \<lparr>d_year = 2025, d_month = 10, d_day = 1\<rparr>"
    by (simp add: start_date_def parse_defs)
  have d2: "start_date ''2025-10-02T00:30:00+08:00'' = Inr \<lparr>d_year = 2025, d_month = 10, d_day = 2\<rparr>"
    by (simp add: start_date_def parse_defs)
  have d3: "start_date ''2025-10-01'' = Inr \<lparr>d_year = 2025, d_month = 10, d_day = 1\<rparr>"
    by (simp add: start_date_def parse_defs)
  let ?svc = "\<lparr>events_list = \<lambda>q. Inr \<lparr>evr_items = Some
        [\<lparr>re_id = Some ''e1'', re_summary = Some ''Standup'', re_htmlLink = None, re_status = None,
          re_created = None, re_updated = None,
          re_start = Some \<lparr>ret_dateTime = Some ''2025-10-01T09:00:00+08:00'', ret_date = None,
                            ret_timeZone = None\<rparr>,
          re_end = Some \<lparr>ret_dateTime = Some ''2025-10-01T10:00:00+08:00'', ret_date = None,
                          ret_timeZone = None\<rparr>\<rparr>,
         \<lparr>re_id = Some ''e2'', re_summary = None, re_htmlLink = None, re_status = None,
          re_created = None, re_updated = None,
          re_start = Some \<lparr>ret_dateTime = Some ''2025-10-02T00:30:00+08:00'', ret_date = None,
                            ret_timeZone = None\<rparr>,
          re_end = Some \<lparr>ret_dateTime = Some ''2025-10-02T01:00:00+08:00'', ret_date = None,
                          ret_timeZone = None\<rparr>\<rparr>,
         \<lparr>re_id = Some ''e3'', re_summary = None, re_htmlLink = None, re_status = None,
          re_created = None, re_updated = None,
          re_start = Some \<lparr>ret_dateTime = None, ret_date = Some ''2025-10-01'',
                            ret_timeZone = None\<rparr>,
          re_end = Some \<lparr>ret_dateTime = None, ret_date = Some ''2025-10-02'',
                          ret_timeZone = None\<rparr>\<rparr>]\<rparr>,
      events_insert = \<lambda>c b s. Inl OtherError,
      events_update = \<lambda>c i b. Inl OtherError\<rparr>"
  let ?out = "[\<lparr>se_eventId = Some ''e1'', se_summary = ''Standup'',
           se_start = ''2025-10-01T09:00:00+08:00'', se_end = Some ''2025-10-01T10:00:00+08:00''\<rparr>,
          \<lparr>se_eventId = Some ''e3'', se_summary = ''No Title'',
           se_start = ''2025-10-01'', se_end = Some ''2025-10-02''\<rparr>]"
  have g: "get_calendar_events ?svc \<lparr>d_year = 2025, d_month = 10, d_day = 1\<rparr> = Inr ?out"
    by (simp add: get_calendar_events_def get_or_def event_start_def event_end_def py_or_def d1 d2 d3)
  have m: "\<lparr>se_eventId = Some ''e3'', se_summary = ''No Title'',
           se_start = ''2025-10-01'', se_end = Some ''2025-10-02''\<rparr> \<in> set ?out"
    by simp
  from listed_events_are_today [OF g m]
  have "start_date (se_start \<lparr>se_eventId = Some ''e3'', se_summary = ''No Title'',
           se_start = ''2025-10-01'', se_end = Some ''2025-10-02''\<rparr>)
       = Inr \<lparr>d_year = 2025, d_month = 10, d_day = 1\<rparr>"
    by blast
  then have "start_date ''2025-10-01'' = Inr \<lparr>d_year = 2025, d_month = 10, d_day = 1\<rparr>"
    by (simp only: simplified_event.simps)
  with g d1 d2 show ?thesis by simp
qed

subsection \<open>Creating an event: the time zone of the end\<close>

text \<open>
  The time zone given to \<open>adjust_datetime\<close> for the end: that of the end if the
  request sets it, else that of the start, else the default \<open>Asia/Kuala_Lumpur\<close>.
\<close>

lemma end_timezone_fallback:
  "end_timezone ev =
     (case edt_timeZone (cec_end ev) of
        Val z \<Rightarrow> Some z
      | Null \<Rightarrow> None
      | Unset \<Rightarrow>
          (case edt_timeZone (cec_start ev) of
             Val z \<Rightarrow> Some z
           | Null \<Rightarrow> None
           | Unset \<Rightarrow> Some ''Asia/Kuala_Lumpur''))"
  by (simp add: end_timezone_def field_get_def default_timezone_def split: field.splits)

lemma py_int_named_zone: "py_int (before_colon ''Asia/Kuala_Lumpur'') = Inl ValueError"
  by (simp add: py_int_def before_colon_def strip_def is_space_def digit_of_def)

text \<open>
  C5. A named zone has no leading hour: \<open>int("Asia/Kuala_Lumpur")\<close> raises
  \<open>ValueError\<close>. The request body that the docstring of the handler gives as its example
  is answered with the error 500, whatever the date and the remote service.
\<close>

theorem docstring_example_fails:
  "create_calendar_event svc today docstring_example = Inl (HTTPException 500 '''' ValueError)"
proof -
  have p: "fromisoformat (replace_Z ''2025-09-22T09:00:00+08:00'')
      = Inr \<lparr>dt_date = \<lparr>d_year = 2025, d_month = 9, d_day = 22\<rparr>,
             dt_time = \<lparr>t_hour = 9, t_minute = 0, t_second = 0, t_microsecond = 0\<rparr>,
             dt_tzinfo = Some 480\<rparr>"
    by (simp add: parse_defs)
  have "adjust_datetime today (Some ''2025-09-22T09:00:00+08:00'') (Some ''Asia/Kuala_Lumpur'')
      = Inl ValueError"
    by (simp add: adjust_datetime_def p py_int_named_zone)
  then have "adjust_start today docstring_example = Inl ValueError"
    by (simp add: adjust_start_def docstring_example_def field_get_def field_value_def)
  then show ?thesis
    by (simp add: create_calendar_event_def adjust_event_def server_error_def)
qed

subsection \<open>The health check\<close>

text \<open>
  C9. The module \<open>datetime\<close> has no attribute \<open>now\<close>: the health check raises
  \<open>AttributeError\<close> on every call and returns no body.
\<close>

theorem health_check_raises: "health_check now_iso = Inl AttributeError"
  by (simp add: health_check_def module_getattr_def datetime_module_def)

subsection \<open>Updating an event: the forwarded body\<close>

text \<open>What the comprehension keeps of one field.\<close>

lemma filter_field_items_str:
  "filter (\<lambda>kv. snd kv \<noteq> PNone) (field_items k PStr v) =
     (case v of Val x \<Rightarrow> [(k, PStr x)] | _ \<Rightarrow> [])"
  by (simp add: field_items_def split: field.splits)

lemma filter_field_items_dict:
  "filter (\<lambda>kv. snd kv \<noteq> PNone) (field_items k (\<lambda>e. PDict (g e)) v) =
     (case v of Val x \<Rightarrow> [(k, PDict (g x))] | _ \<Rightarrow> [])"
  by (simp add: field_items_def split: field.splits)

lemma update_dict_eq:
  "update_dict u =
     (case ceu_start u of Val e \<Rightarrow> [(''start'', PDict (dict_event_date_time e))] | _ \<Rightarrow> [])
     @ (case ceu_end u of Val e \<Rightarrow> [(''end'', PDict (dict_event_date_time e))] | _ \<Rightarrow> [])
     @ (case ceu_summary u of Val x \<Rightarrow> [(''summary'', PStr x)] | _ \<Rightarrow> [])
     @ (case ceu_description u of Val x \<Rightarrow> [(''description'', PStr x)] | _ \<Rightarrow> [])
     @ (case ceu_location u of Val x \<Rightarrow> [(''location'', PStr x)] | _ \<Rightarrow> [])"
  by (simp add: update_dict_def dict_update_def filter_field_items_str filter_field_items_dict)

lemma map_of_kept:
  "map_of (case v of Val x \<Rightarrow> [(k', f x)] | _ \<Rightarrow> []) k =
     (if k = k' then (case v of Val x \<Rightarrow> Some (f x) | _ \<Rightarrow> None) else None)"
  by (simp split: field.splits)

lemma fst_kept:
  "map fst (case v of Val x \<Rightarrow> [(k', f x)] | _ \<Rightarrow> []) = (case v of Val x \<Rightarrow> [k'] | _ \<Rightarrow> [])"
  by (simp split: field.splits)

lemma set_kept: "set (case v of Val x \<Rightarrow> [k'] | _ \<Rightarrow> []) \<subseteq> {k'}"
  by (cases v) simp_all

lemma distinct_kept: "distinct (case v of Val x \<Rightarrow> [k'] | _ \<Rightarrow> [])"
  by (cases v) simp_all

lemma update_dict_lookup:
  "map_of (update_dict u) k =
     (if k = ''start'' then
        (case ceu_start u of Val e \<Rightarrow> Some (PDict (dict_event_date_time e)) | _ \<Rightarrow> None)
      else if k = ''end'' then
        (case ceu_end u of Val e \<Rightarrow> Some (PDict (dict_event_date_time e)) | _ \<Rightarrow> None)
      else if k = ''summary'' then
        (case ceu_summary u of Val x \<Rightarrow> Some (PStr x) | _ \<Rightarrow> None)
      else if k = ''description'' then
        (case ceu_description u of Val x \<Rightarrow> Some (PStr x) | _ \<Rightarrow> None)
      else if k = ''location'' then
        (case ceu_location u of Val x \<Rightarrow> Some (PStr x) | _ \<Rightarrow> None)
      else None)"
  unfolding update_dict_eq map_of_append map_add_def map_of_kept
  by (simp split: option.splits)

lemma update_dict_distinct: "distinct (map fst (update_dict u))"
proof -
  have d: "distinct (xs @ ys)" if "distinct xs" "distinct ys" "set xs \<subseteq> {a}" "a \<notin> set ys"
    for xs ys :: "string list" and a
    using that by auto
  let ?l = "case ceu_location u of Val x \<Rightarrow> [''location''] | _ \<Rightarrow> []"
  let ?d = "case ceu_description u of Val x \<Rightarrow> [''description''] | _ \<Rightarrow> []"
  let ?s = "case ceu_summary u of Val x \<Rightarrow> [''summary''] | _ \<Rightarrow> []"
  let ?e = "case ceu_end u of Val x \<Rightarrow> [''end''] | _ \<Rightarrow> []"
  let ?b = "case ceu_start u of Val x \<Rightarrow> [''start''] | _ \<Rightarrow> []"
  have sl: "set ?l \<subseteq> {''location''}" and sd: "set ?d \<subseteq> {''description''}"
    and ss: "set ?s \<subseteq> {''summary''}" and se: "set ?e \<subseteq> {''end''}"
    and sb: "set ?b \<subseteq> {''start''}"
    by (rule set_kept)+
  have 1: "distinct (?d @ ?l)"
    using sl by (intro d [OF distinct_kept distinct_kept sd]) auto
  have 2: "distinct (?s @ ?d @ ?l)"
    using sl sd by (intro d [OF distinct_kept 1 ss]) auto
  have 3: "distinct (?e @ ?s @ ?d @ ?l)"
    using sl sd ss by (intro d [OF distinct_kept 2 se]) auto
  have 4: "distinct (?b @ ?e @ ?s @ ?d @ ?l)"
    using sl sd ss se by (intro d [OF distinct_kept 3 sb]) auto
  show ?thesis
    unfolding update_dict_eq map_append fst_kept by (rule 4)
qed

text \<open>
  C7. The body of the remote update call is \<open>update_dict\<close>. Its keys are distinct;
  each of the five fields of the request is in it, with its value, exactly when the
  request gives it a value other than \<open>null\<close>; and it has no other key. A nested start
  or end object is forwarded as the dictionary of the fields that were set in it.
\<close>

theorem update_body_is_the_non_null_fields:
  "update_calendar_event svc event_id u =
     (case events_update svc ''primary'' event_id (update_dict u) of
        Inl e \<Rightarrow> Inl (server_error e)
      | Inr updated_event \<Rightarrow> Inr updated_event)
   \<and> distinct (map fst (update_dict u))
   \<and> map_of (update_dict u) ''start'' =
       (case ceu_start u of Val e \<Rightarrow> Some (PDict (dict_event_date_time e)) | _ \<Rightarrow> None)
   \<and> map_of (update_dict u) ''end'' =
       (case ceu_end u of Val e \<Rightarrow> Some (PDict (dict_event_date_time e)) | _ \<Rightarrow> None)
   \<and> map_of (update_dict u) ''summary'' =
       (case ceu_summary u of Val x \<Rightarrow> Some (PStr x) | _ \<Rightarrow> None)
   \<and> map_of (update_dict u) ''description'' =
       (case ceu_description u of Val x \<Rightarrow> Some (PStr x) | _ \<Rightarrow> None)
   \<and> map_of (update_dict u) ''location'' =
       (case ceu_location u of Val x \<Rightarrow> Some (PStr x) | _ \<Rightarrow> None)
   \<and> (k \<notin> {''start'', ''end'', ''summary'', ''description'', ''location''}
        \<longrightarrow> map_of (update_dict u) k = None)"
  by (simp add: update_calendar_event_def update_dict_distinct update_dict_lookup)

theorem update_body_is_the_non_null_fields_witness:
  "update_dict \<lparr>ceu_start = Unset, ceu_end = Unset, ceu_summary = Val ''New Title'',
                ceu_description = Unset, ceu_location = Unset\<rparr>
     = [(''summary'', PStr ''New Title'')]
   \<and> update_dict \<lparr>ceu_start = Unset, ceu_end = Unset, ceu_summary = Val ''New Title'',
                ceu_description = Null, ceu_location = Unset\<rparr>
     = [(''summary'', PStr ''New Title'')]
   \<and> map_of (update_dict \<lparr>ceu_start = Unset, ceu_end = Unset, ceu_summary = Val ''New Title'',
                ceu_description = Null, ceu_location = Unset\<rparr>) ''attendees'' = None
   \<and> update_dict
        \<lparr>ceu_start = Val \<lparr>edt_date = Unset, edt_dateTime = Val ''2025-09-21T07:30:00+08:00'',
                          edt_timeZone = Null\<rparr>,
         ceu_end = Null, ceu_summary = Unset, ceu_description = Unset, ceu_location = Unset\<rparr>
     = [(''start'', PDict [(''dateTime'', PStr ''2025-09-21T07:30:00+08:00''),
                          (''timeZone'', PNone)])]"
  using update_body_is_the_non_null_fields
    [where u = "\<lparr>ceu_start = Unset, ceu_end = Unset, ceu_summary = Val ''New Title'',
                ceu_description = Null, ceu_location = Unset\<rparr>" and k = "''attendees''"]
  by (simp add: update_dict_eq dict_event_date_time_def field_items_def)


end
